theory Spec2Isabelle
  imports Complex_Main
begin

section \<open>Strings\<close>

text \<open>
  A JavaScript string is modelled as a \<^typ>\<open>string\<close>.  The model covers the ASCII range, which is
  where ticker symbols live: \<open>trim\<close> removes the ASCII white space of ECMAScript (TAB, LF, VT, FF,
  CR, SPACE) and \<open>toUpperCase\<close> maps \<open>a\<close>..\<open>z\<close> to \<open>A\<close>..\<open>Z\<close>.  Characters beyond ASCII are
  left alone by both.
\<close>

definition isWhiteSpace :: "char \<Rightarrow> bool" where
  "isWhiteSpace c \<longleftrightarrow>
     c \<in> set [CHR 0x09, CHR 0x0A, CHR 0x0B, CHR 0x0C, CHR 0x0D, CHR '' '']"

definition trim :: "string \<Rightarrow> string" where
  "trim s = dropWhile isWhiteSpace (rev (dropWhile isWhiteSpace (rev s)))"

definition toUpperCase_char :: "char \<Rightarrow> char" where
  "toUpperCase_char c =
     (let n = (of_char c :: nat) in if 97 \<le> n \<and> n \<le> 122 then char_of (n - 32) else c)"

definition toUpperCase :: "string \<Rightarrow> string" where
  "toUpperCase s = map toUpperCase_char s"

text \<open>
  \<open>s.split(sep)\<close> for a one-character separator: the pieces between the separators, the empty
  ones included; a string without separator is one piece.
\<close>

fun split_acc :: "char \<Rightarrow> string \<Rightarrow> string \<Rightarrow> string list" where
  "split_acc sep acc [] = [rev acc]"
| "split_acc sep acc (c # cs) =
     (if c = sep then rev acc # split_acc sep [] cs else split_acc sep (c # acc) cs)"

definition split :: "char \<Rightarrow> string \<Rightarrow> string list" where
  "split sep s = split_acc sep [] s"

text \<open>\<open>xs.join(",")\<close> on strings.\<close>

fun join_comma :: "string list \<Rightarrow> string" where
  "join_comma [] = []"
| "join_comma [x] = x"
| "join_comma (x # y # ys) = x @ CHR '','' # join_comma (y # ys)"

text \<open>
  \<open>Array.from(new Set(xs))\<close>: a \<open>Set\<close> keeps its elements in insertion order and ignores the
  insertion of an element it already has.  \<open>set_add\<close> is one insertion, \<open>array_from_set\<close> the
  whole round trip.
\<close>

definition set_add :: "'a list \<Rightarrow> 'a \<Rightarrow> 'a list" where
  "set_add seen x = (if x \<in> set seen then seen else seen @ [x])"

definition array_from_set :: "'a list \<Rightarrow> 'a list" where
  "array_from_set xs = foldl set_add [] xs"

section \<open>Numbers\<close>

text \<open>
  A JavaScript number is an IEEE 754 double: not-a-number, an infinity, a zero of either
  sign, or a finite non-zero value.  \<open>Fin x\<close> is the double whose value is the real \<open>x\<close>,
  \<open>Fin 0\<close> is the positive zero and \<open>NegZero\<close> the negative one.
\<close>

datatype jsnum = NaN | PosInf | NegInf | NegZero | Fin real

fun isFinite :: "jsnum \<Rightarrow> bool" where
  "isFinite (Fin x) = True"
| "isFinite NegZero = True"
| "isFinite _ = False"

text \<open>The sign bit and the value of a number; \<open>x === 0\<close> holds of both zeros.\<close>

fun negative :: "jsnum \<Rightarrow> bool" where
  "negative (Fin x) = (x < 0)"
| "negative NegZero = True"
| "negative NegInf = True"
| "negative _ = False"

fun number_value :: "jsnum \<Rightarrow> real" where
  "number_value (Fin x) = x"
| "number_value _ = 0"

definition isZero :: "jsnum \<Rightarrow> bool" where
  "isZero x \<longleftrightarrow> x = Fin 0 \<or> x = NegZero"

definition signed_inf :: "bool \<Rightarrow> jsnum" where
  "signed_inf neg = (if neg then NegInf else PosInf)"

definition signed_zero :: "bool \<Rightarrow> jsnum" where
  "signed_zero neg = (if neg then NegZero else Fin 0)"

subsection \<open>Rounding to a double\<close>

text \<open>
  The result of an arithmetic operation is the exact result rounded to the nearest double,
  ties to the even significand.  For \<open>a \<ge> 1\<close>, \<open>exponent_up a\<close> is the exponent \<open>e\<close> of
  \<open>a\<close>, the one with \<^verbatim>\<open>2^e <= a < 2^(e+1)\<close>, and \<open>exponent_down\<close> is the same for
  \<open>0 < a < 1\<close>.  The doubles of exponent \<open>e\<close> are the multiples of \<^verbatim>\<open>2^(e-52)\<close>; below
  \<^verbatim>\<open>2^(-1022)\<close> the spacing stays that of the subnormal numbers.  A significand rounded
  up to \<^verbatim>\<open>2^53\<close> carries into the next exponent, and an exponent above 1023 overflows
  to the infinity of the sign; a significand rounded to zero gives the zero of the sign.
\<close>

definition pow2 :: "int \<Rightarrow> real" where
  "pow2 k = (if 0 \<le> k then 2 ^ nat k else 1 / 2 ^ nat (- k))"

function exponent_up :: "real \<Rightarrow> int" where
  "exponent_up a = (if 2 \<le> a then exponent_up (a / 2) + 1 else 0)"
  by pat_completeness auto
termination
proof (relation "measure (\<lambda>a. nat \<lfloor>a\<rfloor>)")
  show "wf (measure (\<lambda>a::real. nat \<lfloor>a\<rfloor>))" by simp
next
  fix a :: real
  assume "2 \<le> a"
  then have "\<lfloor>a / 2\<rfloor> < \<lfloor>a\<rfloor>" by linarith
  moreover have "0 < \<lfloor>a\<rfloor>" using \<open>2 \<le> a\<close> by linarith
  ultimately show "(a / 2, a) \<in> measure (\<lambda>a. nat \<lfloor>a\<rfloor>)" by simp
qed

function exponent_down :: "real \<Rightarrow> int" where
  "exponent_down a = (if 0 < a \<and> a < 1 then exponent_down (2 * a) - 1 else 0)"
  by pat_completeness auto
termination
proof (relation "measure (\<lambda>a. nat \<lfloor>1 / a\<rfloor>)")
  show "wf (measure (\<lambda>a::real. nat \<lfloor>1 / a\<rfloor>))" by simp
next
  fix a :: real
  assume a: "0 < a \<and> a < 1"
  then have one: "1 < 1 / a" by simp
  then have pos: "0 < \<lfloor>1 / a\<rfloor>" by linarith
  have "1 / a < of_int \<lfloor>1 / a\<rfloor> + 1" by linarith
  also have "\<dots> \<le> 2 * of_int \<lfloor>1 / a\<rfloor>" using pos by simp
  finally have "(1 / a) / 2 < of_int \<lfloor>1 / a\<rfloor>" by simp
  then have "\<lfloor>(1 / a) / 2\<rfloor> < \<lfloor>1 / a\<rfloor>" by (simp only: floor_less_iff)
  moreover have "1 / (2 * a) = (1 / a) / 2" by simp
  ultimately have "\<lfloor>1 / (2 * a)\<rfloor> < \<lfloor>1 / a\<rfloor>" by (simp only:)
  then have "nat \<lfloor>1 / (2 * a)\<rfloor> < nat \<lfloor>1 / a\<rfloor>" using pos by linarith
  then show "(2 * a, a) \<in> measure (\<lambda>a. nat \<lfloor>1 / a\<rfloor>)" by (simp only: in_measure)
qed

declare exponent_up.simps [simp del] exponent_down.simps [simp del]

definition nearest_even :: "real \<Rightarrow> int" where
  "nearest_even q =
     (let f = \<lfloor>q\<rfloor>; d = q - of_int f
      in if d < 1 / 2 then f else if 1 / 2 < d then f + 1 else if even f then f else f + 1)"

definition binary64 :: "real \<Rightarrow> jsnum" where
  "binary64 r =
     (let a = \<bar>r\<bar>;
          e = max (- 1022) (if 1 \<le> a then exponent_up a else exponent_down a);
          n = nearest_even (a / pow2 (e - 52))
      in if n = 0 then signed_zero (r < 0)
         else if 1023 < (if 2 ^ 53 \<le> n then e + 1 else e) then signed_inf (r < 0)
         else Fin (sgn r * (of_int n * pow2 (e - 52))))"

subsection \<open>The operators \<open>-\<close>, \<open>/\<close> and \<open>*\<close>\<close>

text \<open>
  Not-a-number propagates; the infinities and the zeros follow IEEE 754 (\<open>\<infinity> - \<infinity>\<close>,
  \<open>\<infinity> / \<infinity>\<close>, \<open>0 / 0\<close> and \<open>\<infinity> * 0\<close> are not-a-number; a non-zero number divided by a zero
  is an infinity; an exact zero difference is \<open>+0\<close> unless it is \<open>-0 - +0\<close>).  No operator
  raises.
\<close>

definition js_sub :: "jsnum \<Rightarrow> jsnum \<Rightarrow> jsnum" where
  "js_sub a b =
     (if a = NaN \<or> b = NaN then NaN
      else if \<not> isFinite a then (if a = b then NaN else a)
      else if \<not> isFinite b then signed_inf (\<not> negative b)
      else if number_value a = number_value b
        then signed_zero (a = NegZero \<and> b = Fin 0)
      else binary64 (number_value a - number_value b))"

definition js_div :: "jsnum \<Rightarrow> jsnum \<Rightarrow> jsnum" where
  "js_div a b =
     (if a = NaN \<or> b = NaN then NaN
      else if \<not> isFinite a
        then (if \<not> isFinite b then NaN else signed_inf (negative a \<noteq> negative b))
      else if \<not> isFinite b then signed_zero (negative a \<noteq> negative b)
      else if number_value b = 0
        then (if number_value a = 0 then NaN else signed_inf (negative a \<noteq> negative b))
      else if number_value a = 0 then signed_zero (negative a \<noteq> negative b)
      else binary64 (number_value a / number_value b))"

definition js_mul :: "jsnum \<Rightarrow> jsnum \<Rightarrow> jsnum" where
  "js_mul a b =
     (if a = NaN \<or> b = NaN then NaN
      else if \<not> isFinite a \<or> \<not> isFinite b
        then (if isZero a \<or> isZero b then NaN else signed_inf (negative a \<noteq> negative b))
      else if number_value a = 0 \<or> number_value b = 0
        then signed_zero (negative a \<noteq> negative b)
      else binary64 (number_value a * number_value b))"

subsection \<open>The percentage helpers of \<open>lib/calculations.ts\<close>\<close>

text \<open>
  \<^verbatim>\<open>
  export function pctFromHigh(currentPrice: number, high52: number): number {
    if (!isFinite(currentPrice) || !isFinite(high52) || high52 === 0) {
      return NaN;
    }
    return ((currentPrice - high52) / high52) * 100;
  }
  \<close>
  and the same for \<open>pctFromLow\<close> with \<open>low52\<close>.
\<close>

definition pctFromHigh :: "jsnum \<Rightarrow> jsnum \<Rightarrow> jsnum" where
  "pctFromHigh currentPrice high52 =
     (if \<not> isFinite currentPrice \<or> \<not> isFinite high52 \<or> isZero high52 then NaN
      else js_mul (js_div (js_sub currentPrice high52) high52) (Fin 100))"

definition pctFromLow :: "jsnum \<Rightarrow> jsnum \<Rightarrow> jsnum" where
  "pctFromLow currentPrice low52 =
     (if \<not> isFinite currentPrice \<or> \<not> isFinite low52 \<or> isZero low52 then NaN
      else js_mul (js_div (js_sub currentPrice low52) low52) (Fin 100))"

section \<open>The symbol list endpoint\<close>

text \<open>
  \<open>GET\<close> of the symbol route reads \<open>nse_stock_symbols.csv\<close> with \<open>readFileSync\<close>.  The
  file system is the handler's only input: \<open>None\<close> when the read throws, the file's text
  otherwise.
\<close>

record 'b http_response =
  status :: nat
  body :: 'b

record symbols_payload =
  payload_error :: "string option"
  payload_symbols :: "string list"

definition csv_symbols :: "string \<Rightarrow> string list" where
  "csv_symbols fileContent =
     (let lines = split CHR 0x0A (trim fileContent)
      in map toUpperCase (filter (\<lambda>line. length line > 0) (map trim (drop 1 lines))))"

definition GET :: "string option \<Rightarrow> symbols_payload http_response" where
  "GET fileRead =
     (case fileRead of
        Some fileContent \<Rightarrow>
          \<lparr>status = 200,
           body = \<lparr>payload_error = None, payload_symbols = csv_symbols fileContent\<rparr>\<rparr>
      | None \<Rightarrow>
          \<lparr>status = 500,
           body = \<lparr>payload_error = Some ''Failed to load stock symbols'',
                   payload_symbols = []\<rparr>\<rparr>)"

section \<open>Request bodies\<close>

text \<open>
  What \<open>req.json()\<close> can deliver: any JSON value.  A number is kept as the text that
  \<open>String(n)\<close> gives, which is all the handler ever reads of it; an object is its members
  in document order, and the last of two members with one name wins, as in \<open>JSON.parse\<close>.
\<close>

datatype json =
    JNull
  | JBool bool
  | JNum string
  | JStr string
  | JArr "json list"
  | JObj "(string \<times> json) list"

datatype request = InvalidJson | Json json

text \<open>
  A thrown value, seen the way the handler's \<open>catch\<close> sees it: \<open>err?.message\<close>, a string
  or nothing.
\<close>

datatype js_exn = Thrown (message: "string option")

text \<open>
  \<open>xs.join(",")\<close> on an array of JSON values: \<open>null\<close> contributes the empty string, every
  other element its conversion to a string, and a nested array joins its own elements.  An
  object converts through its \<open>toString\<close> property: that of \<open>Object.prototype\<close> gives
  \<open>[object Object]\<close>, but a member named \<open>toString\<close> hides it, is not callable (no JSON
  value is), and the conversion throws a \<open>TypeError\<close> (the text is V8's).  The elements are
  converted from left to right, so the first one that throws decides.  The engine's resource
  limits (call stack, string length) are not modelled.
\<close>

definition primitive_error :: js_exn where
  "primitive_error = Thrown (Some ''Cannot convert object to primitive value'')"

fun toString :: "json \<Rightarrow> js_exn + string"
  and join_elements :: "json list \<Rightarrow> js_exn + string list" where
  "toString JNull = Inr ''null''"
| "toString (JBool b) = Inr (if b then ''true'' else ''false'')"
| "toString (JNum text) = Inr text"
| "toString (JStr s) = Inr s"
| "toString (JArr xs) =
     (case join_elements xs of Inl e \<Rightarrow> Inl e | Inr parts \<Rightarrow> Inr (join_comma parts))"
| "toString (JObj members) =
     (if ''toString'' \<in> set (map fst members) then Inl primitive_error
      else Inr ''[object Object]'')"
| "join_elements [] = Inr []"
| "join_elements (JNull # xs) =
     (case join_elements xs of Inl e \<Rightarrow> Inl e | Inr parts \<Rightarrow> Inr ([] # parts))"
| "join_elements (x # xs) =
     (case toString x of
        Inl e \<Rightarrow> Inl e
      | Inr part \<Rightarrow>
          (case join_elements xs of Inl e \<Rightarrow> Inl e | Inr parts \<Rightarrow> Inr (part # parts)))"

definition join :: "json list \<Rightarrow> js_exn + string" where
  "join xs =
     (case join_elements xs of Inl e \<Rightarrow> Inl e | Inr parts \<Rightarrow> Inr (join_comma parts))"

text \<open>
  \<open>body.symbols\<close>: reading a property of \<open>null\<close> throws a \<open>TypeError\<close> (the text is V8's);
  a primitive or an array has no such property; an object gives the member, if it has one.
\<close>

definition null_property_error :: js_exn where
  "null_property_error = Thrown (Some ''Cannot read properties of null (reading 'symbols')'')"

fun body_symbols :: "json \<Rightarrow> js_exn + json option" where
  "body_symbols JNull = Inl null_property_error"
| "body_symbols (JObj members) = Inr (map_of (rev members) ''symbols'')"
| "body_symbols _ = Inr None"

text \<open>
  \<^verbatim>\<open>
  const raw =
    (Array.isArray(body.symbols) && body.symbols.join(",")) ||
    (typeof body.symbols === "string" ? body.symbols : "");
  \<close>
  An array whose join is the empty string is falsy and falls through to the second operand,
  where it is not a string.  A join that throws leaves the \<open>try\<close> block.
\<close>

fun raw_of :: "json option \<Rightarrow> js_exn + string" where
  "raw_of (Some (JArr xs)) =
     (case join xs of
        Inl e \<Rightarrow> Inl e
      | Inr joined \<Rightarrow> Inr (if joined \<noteq> [] then joined else []))"
| "raw_of (Some (JStr s)) = Inr s"
| "raw_of _ = Inr []"

definition raw_symbols :: "json \<Rightarrow> js_exn + string" where
  "raw_symbols b = (case body_symbols b of Inl e \<Rightarrow> Inl e | Inr v \<Rightarrow> raw_of v)"

text \<open>
  \<^verbatim>\<open>
  const symbols = raw.split(",").map((s: string) => s.trim().toUpperCase()).filter(Boolean);
  const unique = Array.from(new Set(symbols));
  \<close>
\<close>

definition symbols_of :: "string \<Rightarrow> string list" where
  "symbols_of raw =
     filter (\<lambda>s. s \<noteq> []) (map (\<lambda>s. toUpperCase (trim s)) (split CHR '','' raw))"

definition unique_of :: "string \<Rightarrow> string list" where
  "unique_of raw = array_from_set (symbols_of raw)"

section \<open>Stock insights\<close>

datatype market = NSE | BSE | US | UNKNOWN

record news_item =
  title :: string
  source :: string
  publishedAt :: int
  url :: "string option"

record bulk_deal =
  deal_date :: string
  buyer :: string
  seller :: string
  quantity :: jsnum
  deal_price :: jsnum
  exchange :: string

record stock_insight =
  symbol :: string
  market :: market
  currentPrice :: "jsnum option"
  high52 :: "jsnum option"
  low52 :: "jsnum option"
  insight_pctFromHigh :: "jsnum option"
  insight_pctFromLow :: "jsnum option"
  latestNews :: "news_item list"
  bulkDeals :: "bulk_deal list"
  error :: "string option"

subsection \<open>The aggregation handler\<close>

text \<open>
  The handler imports \<open>buildStockInsight\<close> and \<open>fetchBulkDealsForSymbol\<close>.  Each is an async
  function of the symbol: it resolves to a value or rejects with a thrown value, some time
  after it is called.  How long a call takes is the outside world's, like what it settles
  to; it is counted in ticks of the event loop.
\<close>

record handler_imports =
  import_buildStockInsight :: "string \<Rightarrow> js_exn + stock_insight"
  import_fetchBulkDealsForSymbol :: "string \<Rightarrow> js_exn + bulk_deal list"
  buildStockInsight_takes :: "string \<Rightarrow> nat"
  fetchBulkDeals_takes :: "string \<Rightarrow> nat"

datatype call = BuildStockInsight string | FetchBulkDeals string

datatype insights_payload = Results "stock_insight list" | ErrorBody string

record post_outcome =
  response :: "insights_payload http_response"
  calls :: "call list"

text \<open>The symbols for which a trace has a call of \<open>buildStockInsight\<close>, in order.\<close>

fun built :: "call list \<Rightarrow> string list" where
  "built [] = []"
| "built (BuildStockInsight ticker # cs) = ticker # built cs"
| "built (FetchBulkDeals ticker # cs) = built cs"

text \<open>
  The callback of \<open>unique.map\<close>:
  \<^verbatim>\<open>
  async (symbol) => {
    const base = await buildStockInsight(symbol);
    const bulkDeals = await fetchBulkDealsForSymbol(symbol);
    return { ...base, bulkDeals };
  }
  \<close>
\<close>

definition insight_task :: "handler_imports \<Rightarrow> string \<Rightarrow> js_exn + stock_insight" where
  "insight_task I ticker =
     (case import_buildStockInsight I ticker of
        Inl e \<Rightarrow> Inl e
      | Inr base \<Rightarrow>
          (case import_fetchBulkDealsForSymbol I ticker of
             Inl e \<Rightarrow> Inl e
           | Inr deals \<Rightarrow> Inr (base\<lparr>bulkDeals := deals\<rparr>)))"

text \<open>
  Every callback starts at once, so \<open>buildStockInsight\<close> is called for every symbol; the
  bulk deals of a symbol are asked for only after its insight has resolved.  The trace lists
  the calls symbol by symbol; it abstracts from how the tasks interleave, and it includes
  the calls of tasks that are still running when \<open>Promise.all\<close> has rejected (nothing
  cancels them).
\<close>

definition task_calls :: "handler_imports \<Rightarrow> string \<Rightarrow> call list" where
  "task_calls I ticker =
     (case import_buildStockInsight I ticker of
        Inl e \<Rightarrow> [BuildStockInsight ticker]
      | Inr base \<Rightarrow> [BuildStockInsight ticker, FetchBulkDeals ticker])"

text \<open>
  When the task of a symbol settles: all tasks start together; a task whose
  \<open>buildStockInsight\<close> rejects settles then, and any other one resumes a tick later, calls
  \<open>fetchBulkDealsForSymbol\<close> and settles when that does.
\<close>

definition task_settles :: "handler_imports \<Rightarrow> string \<Rightarrow> nat" where
  "task_settles I ticker =
     (case import_buildStockInsight I ticker of
        Inl e \<Rightarrow> buildStockInsight_takes I ticker
      | Inr base \<Rightarrow> buildStockInsight_takes I ticker + 1 + fetchBulkDeals_takes I ticker)"

text \<open>
  \<open>Promise.all\<close> over promises given with the time at which each settles: the values in the
  order of the promises when all resolve, and otherwise the rejection that happens first in
  time (of two at the same time, the one of the earlier promise).
\<close>

fun first_rejection :: "(nat \<times> (js_exn + 'a)) list \<Rightarrow> (nat \<times> js_exn) option" where
  "first_rejection [] = None"
| "first_rejection ((t, Inr x) # ps) = first_rejection ps"
| "first_rejection ((t, Inl e) # ps) =
     (case first_rejection ps of
        None \<Rightarrow> Some (t, e)
      | Some (t', e') \<Rightarrow> if t' < t then Some (t', e') else Some (t, e))"

fun fulfilled :: "(nat \<times> (js_exn + 'a)) list \<Rightarrow> 'a list" where
  "fulfilled [] = []"
| "fulfilled ((t, Inr x) # ps) = x # fulfilled ps"
| "fulfilled ((t, Inl e) # ps) = fulfilled ps"

definition promise_all :: "(nat \<times> (js_exn + 'a)) list \<Rightarrow> js_exn + 'a list" where
  "promise_all ps =
     (case first_rejection ps of
        Some (t, e) \<Rightarrow> Inl e
      | None \<Rightarrow> Inr (fulfilled ps))"

text \<open>
  The body of the handler's \<open>try\<close> block: the calls it made, and the response it returned or
  the value thrown.  An unreadable body is replaced by the empty object:
  \<open>await req.json().catch(() => ({}))\<close>.
\<close>

definition parsed_body :: "request \<Rightarrow> json" where
  "parsed_body req = (case req of InvalidJson \<Rightarrow> JObj [] | Json b \<Rightarrow> b)"

definition POST_try ::
  "handler_imports \<Rightarrow> request \<Rightarrow> call list \<times> (js_exn + insights_payload http_response)" where
  "POST_try I req =
     (case raw_symbols (parsed_body req) of
        Inl e \<Rightarrow> ([], Inl e)
      | Inr raw \<Rightarrow>
          (let symbols = symbols_of raw in
           if length symbols = 0
           then ([], Inr \<lparr>status = 400, body = ErrorBody ''No symbols provided.''\<rparr>)
           else
             (let unique = array_from_set symbols in
              (concat (map (task_calls I) unique),
               (case promise_all (map (\<lambda>ticker. (task_settles I ticker, insight_task I ticker))
                                    unique) of
                  Inl e \<Rightarrow> Inl e
                | Inr insights \<Rightarrow> Inr \<lparr>status = 200, body = Results insights\<rparr>)))))"

text \<open>
  The \<open>catch\<close> of the handler: status 500 with \<open>err?.message\<close>, or with the fixed text when
  the thrown value has no message.  (The \<open>console.error\<close> is not modelled.)
\<close>

definition error_text :: "js_exn \<Rightarrow> string" where
  "error_text err =
     (case message err of
        Some m \<Rightarrow> m
      | None \<Rightarrow> ''Unexpected server error while fetching stock insights.'')"

definition POST :: "handler_imports \<Rightarrow> request \<Rightarrow> post_outcome" where
  "POST I req =
     (case POST_try I req of
        (cs, Inr r) \<Rightarrow> \<lparr>response = r, calls = cs\<rparr>
      | (cs, Inl err) \<Rightarrow>
          \<lparr>response = \<lparr>status = 500, body = ErrorBody (error_text err)\<rparr>, calls = cs\<rparr>)"

subsection \<open>The aggregator and its providers\<close>

text \<open>
  The outside world of the aggregator: what \<open>fetchPriceAndRange\<close> settles to for a symbol
  (\<open>Inl\<close> a failure with its message), what the news provider answers, and the market tag
  of a symbol.  The market is advisory (section 4.1 of the specification) and no result
  below depends on how it is chosen.
\<close>

record price_range =
  range_currentPrice :: jsnum
  range_high52 :: jsnum
  range_low52 :: jsnum

record providers =
  fetchPriceAndRange :: "string \<Rightarrow> string + price_range"
  newsFeed :: "string \<Rightarrow> string + news_item list"
  classifyMarket :: "string \<Rightarrow> market"

text \<open>
  Modelled from the spec: \<open>fetchNewsForSymbol\<close> of \<open>lib/financeApi.ts\<close> is not among the
  sources.  Section 4.2: the entries of the feed, truncated to the 3 most recent by publish
  time (descending); the empty list when the provider fails.
\<close>

definition fetchNewsForSymbol :: "providers \<Rightarrow> string \<Rightarrow> news_item list" where
  "fetchNewsForSymbol P ticker =
     (case newsFeed P ticker of
        Inl failure \<Rightarrow> []
      | Inr entries \<Rightarrow> take 3 (sort_key (\<lambda>n. - publishedAt n) entries))"

text \<open>
  Modelled from the spec: \<open>fetchBulkDealsForSymbol\<close> of \<open>lib/bulkDeals.ts\<close> is not among the
  sources.  Section 4.3: always the empty sequence.
\<close>

definition fetchBulkDealsForSymbol :: "string \<Rightarrow> bulk_deal list" where
  "fetchBulkDealsForSymbol ticker = []"

text \<open>
  Modelled from the spec: \<open>buildStockInsight\<close> of \<open>lib/financeApi.ts\<close> is not among the
  sources.  Section 4.4: the price and range, the news and the bulk deals of the symbol merged
  into one record with the two percentages; when the price fetch fails, the record has \<open>error\<close>
  set to the failure message, every numeric field null, and the news and bulk deals of their
  own fetches.
\<close>

definition buildStockInsight :: "providers \<Rightarrow> string \<Rightarrow> stock_insight" where
  "buildStockInsight P ticker =
     (let news = fetchNewsForSymbol P ticker; deals = fetchBulkDealsForSymbol ticker in
      case fetchPriceAndRange P ticker of
        Inl failure \<Rightarrow>
          \<lparr>symbol = ticker, market = classifyMarket P ticker,
           currentPrice = None, high52 = None, low52 = None,
           insight_pctFromHigh = None, insight_pctFromLow = None,
           latestNews = news, bulkDeals = deals, error = Some failure\<rparr>
      | Inr r \<Rightarrow>
          \<lparr>symbol = ticker, market = classifyMarket P ticker,
           currentPrice = Some (range_currentPrice r),
           high52 = Some (range_high52 r),
           low52 = Some (range_low52 r),
           insight_pctFromHigh = Some (pctFromHigh (range_currentPrice r) (range_high52 r)),
           insight_pctFromLow = Some (pctFromLow (range_currentPrice r) (range_low52 r)),
           latestNews = news, bulkDeals = deals, error = None\<rparr>)"

text \<open>
  The handler linked with the aggregator and the bulk-deal stub of the spec.  Neither of
  them rejects, so how long they take plays no role.
\<close>

definition linked :: "providers \<Rightarrow> handler_imports" where
  "linked P =
     \<lparr>import_buildStockInsight = (\<lambda>ticker. Inr (buildStockInsight P ticker)),
      import_fetchBulkDealsForSymbol = (\<lambda>ticker. Inr (fetchBulkDealsForSymbol ticker)),
      buildStockInsight_takes = (\<lambda>ticker. 0),
      fetchBulkDeals_takes = (\<lambda>ticker. 0)\<rparr>"

text \<open>What the handler's callback resolves to for one symbol, once linked.\<close>

definition merged :: "providers \<Rightarrow> string \<Rightarrow> stock_insight" where
  "merged P ticker =
     (buildStockInsight P ticker)\<lparr>bulkDeals := fetchBulkDealsForSymbol ticker\<rparr>"

section \<open>The normalisation in the words of the specification\<close>

text \<open>
  Section 4.1 of the specification: split on commas, trim white space, upper-case, discard
  empty tokens, deduplicate preserving first-seen order.  \<open>first_occurrences\<close> keeps the first
  occurrence of every element and drops the later ones.
\<close>

fun first_occurrences :: "'a list \<Rightarrow> 'a list" where
  "first_occurrences [] = []"
| "first_occurrences (x # xs) = x # first_occurrences (filter (\<lambda>y. y \<noteq> x) xs)"

definition normalized :: "string \<Rightarrow> string list" where
  "normalized raw =
     first_occurrences
       (filter (\<lambda>token. token \<noteq> [])
          (map toUpperCase (map trim (split CHR '','' raw))))"

section \<open>Sample data\<close>

definition sample_csv :: string where
  "sample_csv =
     ''SYMBOL'' @ [CHR 0x0A] @ ''reliance'' @ [CHR 0x0D, CHR 0x0A] @ '' tcs ''
       @ [CHR 0x0A, CHR 0x0A] @ ''Infy'' @ [CHR 0x0A]"

definition headline :: "string \<Rightarrow> int \<Rightarrow> news_item" where
  "headline t published =
     \<lparr>title = t, source = ''Wire'', publishedAt = published, url = None\<rparr>"

definition sample_feed :: "news_item list" where
  "sample_feed = [headline ''A'' 10, headline ''B'' 40, headline ''C'' 20, headline ''D'' 30]"

definition sample_range :: price_range where
  "sample_range =
     \<lparr>range_currentPrice = Fin 1200, range_high52 = Fin 1500, range_low52 = Fin 900\<rparr>"

text \<open>A provider that knows every ticker but \<open>BAD\<close>.\<close>

definition sample_providers :: providers where
  "sample_providers =
     \<lparr>fetchPriceAndRange =
        (\<lambda>ticker. if ticker = ''BAD'' then Inl ''Symbol not found'' else Inr sample_range),
      newsFeed = (\<lambda>ticker. Inr sample_feed),
      classifyMarket = (\<lambda>ticker. UNKNOWN)\<rparr>"

text \<open>Imports whose \<open>buildStockInsight\<close> rejects with a given value.\<close>

definition rejecting_imports :: "js_exn \<Rightarrow> handler_imports" where
  "rejecting_imports e =
     \<lparr>import_buildStockInsight = (\<lambda>ticker. Inl e),
      import_fetchBulkDealsForSymbol = (\<lambda>ticker. Inr []),
      buildStockInsight_takes = (\<lambda>ticker. 0),
      fetchBulkDeals_takes = (\<lambda>ticker. 0)\<rparr>"

text \<open>
  Imports that settle at once, where \<open>buildStockInsight\<close> rejects for \<open>B\<close> only and
  \<open>fetchBulkDealsForSymbol\<close> rejects for every symbol.
\<close>

definition racing_imports :: handler_imports where
  "racing_imports =
     \<lparr>import_buildStockInsight =
        (\<lambda>ticker. if ticker = ''B'' then Inl (Thrown (Some ''no insight for B''))
                  else Inr (buildStockInsight sample_providers ticker)),
      import_fetchBulkDealsForSymbol = (\<lambda>ticker. Inl (Thrown (Some ''no deals''))),
      buildStockInsight_takes = (\<lambda>ticker. 0),
      fetchBulkDeals_takes = (\<lambda>ticker. 0)\<rparr>"

definition symbols_request :: "json \<Rightarrow> request" where
  "symbols_request v = Json (JObj [(''symbols'', v)])"

section \<open>Facts about strings\<close>

lemma isWhiteSpace_code:
  "isWhiteSpace c \<longleftrightarrow> (of_char c :: nat) \<in> {9, 10, 11, 12, 13, 32}"
proof -
  have eq: "\<And>d. c = d \<longleftrightarrow> (of_char c :: nat) = of_char d" by simp
  show ?thesis
    unfolding isWhiteSpace_def by (simp add: eq)
qed

lemma upper_range: "97 \<le> (n::nat) \<Longrightarrow> n \<le> 122 \<Longrightarrow> (n - 32) mod 256 = n - 32"
  by simp

lemma of_char_toUpperCase_char:
  "(of_char (toUpperCase_char c) :: nat) =
     (if 97 \<le> (of_char c :: nat) \<and> (of_char c :: nat) \<le> 122
      then of_char c - 32 else of_char c)"
  by (auto simp add: toUpperCase_char_def Let_def upper_range)

lemma toUpperCase_char_idem: "toUpperCase_char (toUpperCase_char c) = toUpperCase_char c"
proof -
  have "(of_char (toUpperCase_char (toUpperCase_char c)) :: nat) = of_char (toUpperCase_char c)"
    unfolding of_char_toUpperCase_char [of "toUpperCase_char c"]
    unfolding of_char_toUpperCase_char [of c]
    by arith
  then show ?thesis by simp
qed

lemma isWhiteSpace_toUpperCase_char: "isWhiteSpace (toUpperCase_char c) \<longleftrightarrow> isWhiteSpace c"
  unfolding isWhiteSpace_code of_char_toUpperCase_char
  by (cases "97 \<le> (of_char c :: nat) \<and> (of_char c :: nat) \<le> 122") auto

lemma comma_toUpperCase_char: "toUpperCase_char c = CHR '','' \<longleftrightarrow> c = CHR '',''"
proof -
  have "toUpperCase_char c = CHR '','' \<longleftrightarrow> (of_char (toUpperCase_char c) :: nat) = 44"
    using of_char_eq_iff [of "toUpperCase_char c" "CHR '',''", where ?'a = nat] by simp
  also have "\<dots> \<longleftrightarrow> (of_char c :: nat) = 44"
    unfolding of_char_toUpperCase_char
    by (cases "97 \<le> (of_char c :: nat) \<and> (of_char c :: nat) \<le> 122") auto
  also have "\<dots> \<longleftrightarrow> c = CHR '',''"
    using of_char_eq_iff [of c "CHR '',''", where ?'a = nat] by simp
  finally show ?thesis .
qed

lemma toUpperCase_idem: "toUpperCase (toUpperCase s) = toUpperCase s"
  by (simp add: toUpperCase_def toUpperCase_char_idem)

lemma toUpperCase_Nil_iff: "toUpperCase s = [] \<longleftrightarrow> s = []"
  by (simp add: toUpperCase_def)

lemma comma_toUpperCase: "CHR '','' \<in> set (toUpperCase s) \<longleftrightarrow> CHR '','' \<in> set s"
proof -
  have "\<And>c. CHR '','' = toUpperCase_char c \<longleftrightarrow> CHR '','' = c"
    using comma_toUpperCase_char by metis
  then show ?thesis by (induction s) (simp_all add: toUpperCase_def)
qed

lemma dropWhile_toUpperCase:
  "dropWhile isWhiteSpace (toUpperCase s) = toUpperCase (dropWhile isWhiteSpace s)"
  by (induction s) (simp_all add: toUpperCase_def isWhiteSpace_toUpperCase_char)

lemma trim_toUpperCase: "trim (toUpperCase s) = toUpperCase (trim s)"
proof -
  have r: "\<And>t. rev (toUpperCase t) = toUpperCase (rev t)"
    by (simp add: toUpperCase_def rev_map)
  show ?thesis
    by (simp add: trim_def r dropWhile_toUpperCase)
qed

lemma dropWhile_fixed: "dropWhile P (dropWhile P xs) = dropWhile P xs"
  by (induction xs) simp_all

lemma dropWhile_all: "\<forall>x\<in>set xs. P x \<Longrightarrow> dropWhile P xs = []"
  by (induction xs) simp_all

lemma dropWhile_Nil_all: "dropWhile P xs = [] \<Longrightarrow> \<forall>x\<in>set xs. P x"
  by (induction xs) (auto split: if_splits)

lemma dropWhile_twice: "dropWhile P (rev (dropWhile P xs)) = [] \<Longrightarrow> dropWhile P xs = []"
proof (rule ccontr)
  assume e: "dropWhile P (rev (dropWhile P xs)) = []" and n: "dropWhile P xs \<noteq> []"
  from e have "\<forall>x\<in>set (rev (dropWhile P xs)). P x" by (rule dropWhile_Nil_all)
  then have a: "\<forall>x\<in>set (dropWhile P xs). P x" by simp
  from n have "\<not> P (hd (dropWhile P xs))" by (rule hd_dropWhile)
  moreover from n have "hd (dropWhile P xs) \<in> set (dropWhile P xs)" by (rule hd_in_set)
  ultimately show False using a by blast
qed

lemma dropWhile_rev_keep:
  "xs \<noteq> [] \<Longrightarrow> \<not> P (last xs) \<Longrightarrow> dropWhile P (rev xs) = rev xs"
  by (cases xs rule: rev_cases) simp_all

lemma last_dropWhile_keep: "dropWhile P xs \<noteq> [] \<Longrightarrow> last (dropWhile P xs) = last xs"
  by (induction xs) (auto split: if_splits)

lemma trim_Nil_iff: "trim s = [] \<longleftrightarrow> (\<forall>c\<in>set s. isWhiteSpace c)"
proof
  assume "trim s = []"
  then have "dropWhile isWhiteSpace (rev s) = []"
    unfolding trim_def by (rule dropWhile_twice)
  then have "\<forall>c\<in>set (rev s). isWhiteSpace c" by (rule dropWhile_Nil_all)
  then show "\<forall>c\<in>set s. isWhiteSpace c" by simp
next
  assume "\<forall>c\<in>set s. isWhiteSpace c"
  then have "\<forall>c\<in>set (rev s). isWhiteSpace c" by simp
  then have e: "dropWhile isWhiteSpace (rev s) = []" by (rule dropWhile_all)
  show "trim s = []" by (simp only: trim_def e rev.simps dropWhile.simps)
qed

lemma trim_idem: "trim (trim s) = trim s"
proof (cases "trim s = []")
  case True
  have "trim [] = []" by (simp add: trim_def)
  then show ?thesis by (simp only: True)
next
  case False
  define d where "d = dropWhile isWhiteSpace (rev s)"
  have u: "trim s = dropWhile isWhiteSpace (rev d)" by (simp add: trim_def d_def)
  with False have d: "d \<noteq> []" by auto
  then have "\<not> isWhiteSpace (hd d)" unfolding d_def by (rule hd_dropWhile)
  moreover have "last (trim s) = last (rev d)"
    using False unfolding u by (rule last_dropWhile_keep)
  moreover have "last (rev d) = hd d" using d by (simp add: last_rev)
  ultimately have "\<not> isWhiteSpace (last (trim s))" by simp
  with False have "dropWhile isWhiteSpace (rev (trim s)) = rev (trim s)"
    by (rule dropWhile_rev_keep)
  then have "trim (trim s) = dropWhile isWhiteSpace (trim s)"
    by (simp add: trim_def [of "trim s"])
  also have "\<dots> = trim s" unfolding u by (rule dropWhile_fixed)
  finally show ?thesis .
qed

lemma trim_append_white: "\<forall>c\<in>set r. isWhiteSpace c \<Longrightarrow> trim (h @ r) = trim h"
proof -
  assume "\<forall>c\<in>set r. isWhiteSpace c"
  then have "dropWhile isWhiteSpace (rev r @ rev h) = dropWhile isWhiteSpace (rev h)"
    by (simp add: dropWhile_append)
  then show ?thesis by (simp add: trim_def)
qed

lemma set_trim: "set (trim s) \<subseteq> set s"
proof
  fix c assume "c \<in> set (trim s)"
  then have "c \<in> set (rev (dropWhile isWhiteSpace (rev s)))"
    unfolding trim_def by (rule set_dropWhileD)
  then have "c \<in> set (dropWhile isWhiteSpace (rev s))" by simp
  then have "c \<in> set (rev s)" by (rule set_dropWhileD)
  then show "c \<in> set s" by simp
qed

lemma split_acc_no_sep: "sep \<notin> set s \<Longrightarrow> split_acc sep acc s = [rev acc @ s]"
  by (induction s arbitrary: acc) auto

lemma split_no_sep: "sep \<notin> set s \<Longrightarrow> split sep s = [s]"
  by (simp add: split_def split_acc_no_sep)

lemma split_acc_pieces:
  "sep \<notin> set acc \<Longrightarrow> t \<in> set (split_acc sep acc s) \<Longrightarrow> sep \<notin> set t"
proof (induction s arbitrary: acc)
  case Nil
  then show ?case by simp
next
  case (Cons c cs)
  show ?case
  proof (cases "c = sep")
    case True
    with Cons.prems have "t = rev acc \<or> t \<in> set (split_acc sep [] cs)" by simp
    then show ?thesis using Cons.prems(1) Cons.IH [of "[]"] by auto
  next
    case False
    with Cons.prems have "t \<in> set (split_acc sep (c # acc) cs)" by simp
    then show ?thesis using Cons.prems(1) False Cons.IH [of "c # acc"] by auto
  qed
qed

lemma split_pieces: "t \<in> set (split sep s) \<Longrightarrow> sep \<notin> set t"
  using split_acc_pieces [of sep "[]" t s] by (simp add: split_def)

section \<open>The symbol list endpoint: results\<close>

lemma csv_symbols_eq:
  "csv_symbols content =
     map toUpperCase
       (filter (\<lambda>line. line \<noteq> []) (map trim (tl (split CHR 0x0A (trim content)))))"
  by (simp add: csv_symbols_def drop_Suc)

lemma csv_symbols_shape:
  assumes "s \<in> set (csv_symbols content)"
  shows "s \<noteq> [] \<and> trim s = s \<and> toUpperCase s = s"
proof -
  from assms obtain line where s: "s = toUpperCase (trim line)" and n: "trim line \<noteq> []"
    by (auto simp add: csv_symbols_eq)
  from n have "s \<noteq> []" by (simp add: s toUpperCase_Nil_iff)
  moreover have "trim s = s" by (simp add: s trim_toUpperCase trim_idem)
  moreover have "toUpperCase s = s" by (simp add: s toUpperCase_idem)
  ultimately show ?thesis by simp
qed

lemma csv_symbols_header_only:
  assumes "CHR 0x0A \<notin> set header" and "\<forall>c\<in>set rest. isWhiteSpace c"
  shows "csv_symbols (header @ rest) = []"
proof -
  have t: "trim (header @ rest) = trim header" using assms(2) by (rule trim_append_white)
  have "CHR 0x0A \<notin> set (trim header)" using assms(1) set_trim [of header] by blast
  then have "split CHR 0x0A (trim header) = [trim header]" by (rule split_no_sep)
  then show ?thesis by (simp add: csv_symbols_def t)
qed

text \<open>
  Claim C7.  The symbol endpoint answers 500 with the error text and an empty list when the
  file cannot be read.  Otherwise it answers 200 with the lines of the trimmed file after
  the first one, each trimmed, the empty ones dropped, and upper-cased; so every symbol it
  returns is non-empty, trimmed and upper-case.
\<close>

theorem GET_symbols:
  "GET None =
     \<lparr>status = 500,
      body = \<lparr>payload_error = Some ''Failed to load stock symbols'', payload_symbols = []\<rparr>\<rparr>
   \<and> GET (Some content) =
     \<lparr>status = 200,
      body = \<lparr>payload_error = None,
              payload_symbols =
                map toUpperCase
                  (filter (\<lambda>line. line \<noteq> [])
                     (map trim (tl (split CHR 0x0A (trim content)))))\<rparr>\<rparr>
   \<and> (\<forall>s\<in>set (payload_symbols (body (GET (Some content)))).
         s \<noteq> [] \<and> trim s = s \<and> toUpperCase s = s)"
proof -
  have "\<forall>s\<in>set (payload_symbols (body (GET (Some content)))).
         s \<noteq> [] \<and> trim s = s \<and> toUpperCase s = s"
    using csv_symbols_shape [of _ content] by (simp add: GET_def)
  then show ?thesis by (simp add: GET_def csv_symbols_eq)
qed

theorem GET_symbols_witness:
  "payload_symbols (body (GET (Some sample_csv))) = [''RELIANCE'', ''TCS'', ''INFY'']
   \<and> ''TCS'' \<in> set (payload_symbols (body (GET (Some sample_csv))))
   \<and> trim ''TCS'' = ''TCS'' \<and> toUpperCase ''TCS'' = ''TCS''"
  using GET_symbols [of sample_csv] by code_simp

text \<open>
  Claim C10.  A readable file that is a header row followed by nothing but white space
  (blank lines included) gives 200 with an empty symbol list; the answer is 500 exactly when
  reading the file throws.
\<close>

theorem GET_header_only:
  "(CHR 0x0A \<notin> set header \<and> (\<forall>c\<in>set rest. isWhiteSpace c) \<longrightarrow>
      GET (Some (header @ rest)) =
        \<lparr>status = 200, body = \<lparr>payload_error = None, payload_symbols = []\<rparr>\<rparr>)
   \<and> (status (GET fileRead) = 500 \<longleftrightarrow> fileRead = None)"
  by (cases fileRead) (simp_all add: GET_def csv_symbols_header_only)

theorem GET_header_only_witness:
  "CHR 0x0A \<notin> set ''SYMBOL''
   \<and> list_all isWhiteSpace ([CHR 0x0A] @ ''  '' @ [CHR 0x0A])
   \<and> GET (Some (''SYMBOL'' @ [CHR 0x0A] @ ''  '' @ [CHR 0x0A])) =
        \<lparr>status = 200, body = \<lparr>payload_error = None, payload_symbols = []\<rparr>\<rparr>
   \<and> status (GET None) = 500"
  using GET_header_only [of "''SYMBOL''" "[CHR 0x0A] @ ''  '' @ [CHR 0x0A]" None]
  by (simp add: isWhiteSpace_def list_all_iff)

section \<open>The normalisation of the symbols\<close>

lemma foldl_set_add:
  "foldl set_add seen xs = seen @ first_occurrences (filter (\<lambda>y. y \<notin> set seen) xs)"
proof (induction xs arbitrary: seen)
  case Nil
  show ?case by simp
next
  case (Cons x xs)
  show ?case
  proof (cases "x \<in> set seen")
    case True
    then show ?thesis using Cons.IH [of seen] by (simp add: set_add_def)
  next
    case False
    have "filter (\<lambda>y. y \<notin> set (seen @ [x])) xs =
            filter (\<lambda>y. y \<noteq> x) (filter (\<lambda>y. y \<notin> set seen) xs)"
      by (induction xs) auto
    then show ?thesis using False Cons.IH [of "seen @ [x]"] by (simp add: set_add_def)
  qed
qed

lemma array_from_set_first: "array_from_set xs = first_occurrences xs"
  using foldl_set_add [of "[]" xs] by (simp add: array_from_set_def)

lemma set_first_occurrences: "set (first_occurrences xs) = set xs"
  by (induction xs rule: first_occurrences.induct) auto

lemma distinct_first_occurrences: "distinct (first_occurrences xs)"
  by (induction xs rule: first_occurrences.induct) (auto simp: set_first_occurrences)

lemma first_occurrences_Nil_iff: "first_occurrences xs = [] \<longleftrightarrow> xs = []"
  by (cases xs) simp_all

lemma unique_of_normalized: "unique_of raw = normalized raw"
  by (simp add: unique_of_def symbols_of_def normalized_def array_from_set_first comp_def)

lemma symbols_of_shape:
  assumes "s \<in> set (symbols_of raw)"
  shows "s \<noteq> [] \<and> trim s = s \<and> toUpperCase s = s \<and> CHR '','' \<notin> set s"
proof -
  from assms obtain t where t: "t \<in> set (split CHR '','' raw)"
    and s: "s = toUpperCase (trim t)" and n: "s \<noteq> []"
    by (auto simp add: symbols_of_def)
  have "CHR '','' \<notin> set t" using t by (rule split_pieces)
  then have "CHR '','' \<notin> set (trim t)" using set_trim [of t] by blast
  then have "CHR '','' \<notin> set s" by (simp add: s comma_toUpperCase)
  moreover have "trim s = s" by (simp add: s trim_toUpperCase trim_idem)
  moreover have "toUpperCase s = s" by (simp add: s toUpperCase_idem)
  ultimately show ?thesis using n by simp
qed

lemma set_unique_of: "set (unique_of raw) = set (symbols_of raw)"
  by (simp add: unique_of_def array_from_set_first set_first_occurrences)

lemma distinct_unique_of: "distinct (unique_of raw)"
  by (simp add: unique_of_def array_from_set_first distinct_first_occurrences)

text \<open>
  Claim C3.  What the handler computes from the raw string is the normalisation of the
  specification: split on commas, trim, upper-case, drop the empty tokens, keep the first
  occurrence of each symbol.  The result has no duplicates, and each of its symbols is
  non-empty, trimmed, upper-case and free of commas.  The input \<open>"tcs, TCS, Infy "\<close> gives
  \<open>["TCS", "INFY"]\<close>.
\<close>

theorem symbols_normalized:
  "unique_of raw = normalized raw
   \<and> distinct (unique_of raw)
   \<and> (\<forall>s\<in>set (unique_of raw).
         s \<noteq> [] \<and> trim s = s \<and> toUpperCase s = s \<and> CHR '','' \<notin> set s)
   \<and> unique_of ''tcs, TCS, Infy '' = [''TCS'', ''INFY'']"
proof -
  have "unique_of ''tcs, TCS, Infy '' = [''TCS'', ''INFY'']" by code_simp
  moreover have "\<forall>s\<in>set (unique_of raw).
         s \<noteq> [] \<and> trim s = s \<and> toUpperCase s = s \<and> CHR '','' \<notin> set s"
    using symbols_of_shape [of _ raw] by (simp add: set_unique_of)
  ultimately show ?thesis by (simp add: unique_of_normalized [symmetric] distinct_unique_of)
qed

theorem symbols_normalized_witness:
  "normalized ''tcs, TCS, Infy '' = [''TCS'', ''INFY'']
   \<and> ''INFY'' \<in> set (unique_of ''tcs, TCS, Infy '')
   \<and> trim ''INFY'' = ''INFY'' \<and> toUpperCase ''INFY'' = ''INFY'' \<and> CHR '','' \<notin> set ''INFY''"
  using symbols_normalized [of "''tcs, TCS, Infy ''"] by code_simp

section \<open>The percentage helpers: results\<close>

lemma binary64_not_NaN: "binary64 r \<noteq> NaN"
  by (simp add: binary64_def Let_def signed_zero_def signed_inf_def)

lemma js_sub_not_NaN: "isFinite a \<Longrightarrow> isFinite b \<Longrightarrow> js_sub a b \<noteq> NaN"
  by (cases a; cases b) (simp_all add: js_sub_def binary64_not_NaN signed_zero_def)

lemma js_div_not_NaN:
  "x \<noteq> NaN \<Longrightarrow> isFinite h \<Longrightarrow> \<not> isZero h \<Longrightarrow> js_div x h \<noteq> NaN"
  by (cases x; cases h)
    (simp_all add: js_div_def isZero_def binary64_not_NaN signed_zero_def signed_inf_def)

lemma js_mul_100_not_NaN: "y \<noteq> NaN \<Longrightarrow> js_mul y (Fin 100) \<noteq> NaN"
  by (cases y)
    (simp_all add: js_mul_def isZero_def binary64_not_NaN signed_zero_def signed_inf_def)

lemma percentage_not_NaN:
  assumes "isFinite c" and "isFinite h" and "\<not> isZero h"
  shows "js_mul (js_div (js_sub c h) h) (Fin 100) \<noteq> NaN"
proof -
  from assms(1,2) have "js_sub c h \<noteq> NaN" by (rule js_sub_not_NaN)
  then have "js_div (js_sub c h) h \<noteq> NaN" using assms(2,3) by (rule js_div_not_NaN)
  then show ?thesis by (rule js_mul_100_not_NaN)
qed

lemma exponent_up_nonneg: "0 \<le> exponent_up a"
  by (induction a rule: exponent_up.induct) (subst exponent_up.simps, simp)

lemma exponent_up_ge: "2 ^ k \<le> a \<Longrightarrow> int k \<le> exponent_up a"
proof (induction k arbitrary: a)
  case 0
  show ?case using exponent_up_nonneg [of a] by simp
next
  case (Suc k)
  have k1: "(1::real) \<le> 2 ^ k" by simp
  from Suc.prems have "2 * 2 ^ k \<le> a" by simp
  with k1 have two: "2 \<le> a" by linarith
  from Suc.prems have "2 ^ k \<le> a / 2" by simp
  then have "int k \<le> exponent_up (a / 2)" by (rule Suc.IH)
  moreover have "exponent_up a = exponent_up (a / 2) + 1"
    using two by (subst exponent_up.simps) simp
  ultimately show ?case by simp
qed

lemma pow2_Suc: "0 \<le> k \<Longrightarrow> pow2 (k + 1) = 2 * pow2 k"
  by (simp add: pow2_def nat_add_distrib)

lemma exponent_up_le: "1 \<le> a \<Longrightarrow> pow2 (exponent_up a) \<le> a"
proof (induction a rule: exponent_up.induct)
  case (1 a)
  show ?case
  proof (cases "2 \<le> a")
    case True
    then have "1 \<le> a / 2" by simp
    with True have "pow2 (exponent_up (a / 2)) \<le> a / 2" by (rule "1.IH")
    moreover have "exponent_up a = exponent_up (a / 2) + 1"
      using True by (subst exponent_up.simps) simp
    ultimately show ?thesis using pow2_Suc [OF exponent_up_nonneg, of "a / 2"] by simp
  next
    case False
    then have "exponent_up a = 0" by (subst exponent_up.simps) simp
    with "1.prems" show ?thesis by (simp add: pow2_def)
  qed
qed

lemma pow2_diff: "52 \<le> k \<Longrightarrow> pow2 k = 2 ^ 52 * pow2 (k - 52)"
proof -
  assume "52 \<le> k"
  then have "nat k = 52 + nat (k - 52)" by simp
  then have "(2::real) ^ nat k = 2 ^ 52 * 2 ^ nat (k - 52)" by (simp only: power_add)
  then show ?thesis using \<open>52 \<le> k\<close> by (simp add: pow2_def)
qed

lemma nearest_even_ge: "\<lfloor>q\<rfloor> \<le> nearest_even q"
  by (simp add: nearest_even_def Let_def)

lemma binary64_overflow:
  assumes "2 ^ 1024 \<le> \<bar>r\<bar>"
  shows "binary64 r = signed_inf (r < 0)"
proof -
  define a where "a = \<bar>r\<bar>"
  define e where "e = exponent_up a"
  have big: "2 ^ 1024 \<le> a" using assms by (simp add: a_def)
  have "(1::real) \<le> 2 ^ 1024" by simp
  with big have one: "1 \<le> a" by linarith
  have e: "1024 \<le> e" using exponent_up_ge [OF big] by (simp add: e_def)
  have le: "pow2 e \<le> a" unfolding e_def using one by (rule exponent_up_le)
  have pos: "0 < pow2 (e - 52)" by (simp add: pow2_def)
  have "pow2 e = 2 ^ 52 * pow2 (e - 52)" using e by (intro pow2_diff) simp
  with le have "2 ^ 52 * pow2 (e - 52) \<le> a" by simp
  then have "2 ^ 52 \<le> a / pow2 (e - 52)" using pos by (simp add: pos_le_divide_eq)
  then have "(1::real) \<le> a / pow2 (e - 52)" by simp
  then have "1 \<le> \<lfloor>a / pow2 (e - 52)\<rfloor>" by linarith
  then have n: "1 \<le> nearest_even (a / pow2 (e - 52))"
    using nearest_even_ge [of "a / pow2 (e - 52)"] by linarith
  have m: "max (- 1022) e = e" using e by simp
  show ?thesis
    using n e one
    by (simp add: binary64_def Let_def a_def [symmetric] e_def [symmetric] m)
qed

lemma pct_overflow:
  assumes "2 ^ 1023 \<le> m"
  shows "pctFromHigh (Fin m) (Fin (- m)) = NegInf"
proof -
  have "(0::real) < 2 ^ 1023" by simp
  with assms have pos: "0 < m" by linarith
  have "(2::real) ^ 1024 = 2 * 2 ^ 1023" by simp
  with assms have "2 ^ 1024 \<le> \<bar>m - (- m)\<bar>" using pos by simp
  then have "binary64 (m - (- m)) = signed_inf (m - (- m) < 0)" by (rule binary64_overflow)
  with pos have b: "binary64 (m - (- m)) = PosInf" by (simp add: signed_inf_def)
  from pos have "js_sub (Fin m) (Fin (- m)) = PosInf"
    by (simp add: js_sub_def b del: minus_minus) (simp add: b [simplified])
  then show ?thesis using pos
    by (simp add: pctFromHigh_def isZero_def js_div_def js_mul_def signed_inf_def)
qed

lemma sample_pctFromHigh: "pctFromHigh (Fin 1200) (Fin 1500) = Fin (- 20)"
  by code_simp

lemma sample_pctFromLow:
  "pctFromLow (Fin 1200) (Fin 900) = Fin (2345624805922133 / 70368744177664)"
  by code_simp

text \<open>
  Claim C4.  When both inputs are finite and the denominator is not a zero, each helper
  returns the value of \<open>((currentPrice - x) / x) * 100\<close> in double arithmetic, which is
  never not-a-number; when an input is not finite or the denominator is a zero of either
  sign, it returns not-a-number.  The helpers are total: nothing is raised.
\<close>

theorem pct_formula:
  "(isFinite c \<and> isFinite h \<and> \<not> isZero h \<longrightarrow>
       pctFromHigh c h = js_mul (js_div (js_sub c h) h) (Fin 100)
     \<and> pctFromLow c h = js_mul (js_div (js_sub c h) h) (Fin 100)
     \<and> pctFromHigh c h \<noteq> NaN \<and> pctFromLow c h \<noteq> NaN)
   \<and> (\<not> isFinite c \<or> \<not> isFinite h \<or> isZero h \<longrightarrow>
         pctFromHigh c h = NaN \<and> pctFromLow c h = NaN)"
  using percentage_not_NaN [of c h] by (simp add: pctFromHigh_def pctFromLow_def)

theorem pct_formula_witness:
  "isFinite (Fin 1200) \<and> isFinite (Fin 900) \<and> \<not> isZero (Fin 900)
   \<and> pctFromLow (Fin 1200) (Fin 900) = js_mul (js_div (js_sub (Fin 1200) (Fin 900)) (Fin 900)) (Fin 100)
   \<and> pctFromLow (Fin 1200) (Fin 900) = Fin (2345624805922133 / 70368744177664)
   \<and> pctFromHigh (Fin 1200) (Fin 1500) = Fin (- 20)
   \<and> pctFromHigh (Fin (2 ^ 1023)) (Fin (- (2 ^ 1023))) = NegInf
   \<and> pctFromHigh (Fin 1200) (Fin 0) = NaN
   \<and> pctFromHigh (Fin 1200) NegZero = NaN
   \<and> pctFromLow PosInf (Fin 900) = NaN
   \<and> pctFromHigh (Fin 1200) NaN = NaN"
proof -
  have a: "isFinite (Fin 1200) \<and> isFinite (Fin 900) \<and> \<not> isZero (Fin 900)"
    by (simp add: isZero_def)
  with pct_formula [of "Fin 1200" "Fin 900"]
  have b: "pctFromLow (Fin 1200) (Fin 900)
      = js_mul (js_div (js_sub (Fin 1200) (Fin 900)) (Fin 900)) (Fin 100)"
    by blast
  have c: "pctFromHigh (Fin (2 ^ 1023)) (Fin (- (2 ^ 1023))) = NegInf"
    by (rule pct_overflow) simp
  have d: "pctFromHigh (Fin 1200) (Fin 0) = NaN \<and> pctFromHigh (Fin 1200) NegZero = NaN"
    using pct_formula [of "Fin 1200" "Fin 0"] pct_formula [of "Fin 1200" NegZero]
    by (simp add: isZero_def)
  have e: "pctFromLow PosInf (Fin 900) = NaN \<and> pctFromHigh (Fin 1200) NaN = NaN"
    using pct_formula [of PosInf "Fin 900"] pct_formula [of "Fin 1200" NaN] by simp
  from a b c d e sample_pctFromLow sample_pctFromHigh show ?thesis by (intro conjI) simp_all
qed

section \<open>The aggregation handler: results\<close>

lemma POST_depends_on_raw:
  "raw_symbols (parsed_body req) = raw_symbols (parsed_body req') \<Longrightarrow> POST I req = POST I req'"
  by (simp add: POST_def POST_try_def)

lemma join_elements_strings: "join_elements (map JStr strings) = Inr strings"
  by (induction strings) simp_all

lemma join_strings: "join (map JStr strings) = Inr (join_comma strings)"
  by (simp add: join_def join_elements_strings)

lemma built_task_calls: "built (concat (map (task_calls I) tickers)) = tickers"
  by (induction tickers) (simp_all add: task_calls_def split: sum.splits)

lemma built_POST:
  assumes "raw_symbols (parsed_body req) = Inr raw"
  shows "built (calls (POST I req)) = unique_of raw"
proof (cases "symbols_of raw = []")
  case True
  with assms show ?thesis
    by (simp add: POST_def POST_try_def unique_of_def array_from_set_def)
next
  case False
  with assms show ?thesis
    by (simp add: POST_def POST_try_def Let_def unique_of_def built_task_calls
        split: sum.splits)
qed

lemma raw_symbols_request_string: "raw_symbols (parsed_body (symbols_request (JStr s))) = Inr s"
  by (simp add: raw_symbols_def parsed_body_def symbols_request_def)

lemma raw_symbols_array:
  "body_symbols b = Inr (Some (JArr xs)) \<Longrightarrow>
   raw_symbols b = (case join xs of Inl e \<Rightarrow> Inl e | Inr joined \<Rightarrow> Inr joined)"
  by (simp add: raw_symbols_def split: sum.splits)

text \<open>
  Claim C9, as the handler has it.  A body whose \<open>symbols\<close> is an array that \<open>join\<close> can
  convert is handled exactly as a body whose \<open>symbols\<close> is the joined string: same response,
  same calls.  Every array of strings is such an array.  An array for which \<open>join\<close> throws
  is answered 500 with the message of the thrown value, without any call.  An element that
  contains a comma is split: for \<open>["tcs,infy", "sbin"]\<close> the handler calls
  \<open>buildStockInsight\<close> for three symbols.
\<close>

theorem array_as_joined_string:
  "(join xs = Inr joined \<and> body_symbols b = Inr (Some (JArr xs))
      \<and> body_symbols b' = Inr (Some (JStr joined))
      \<longrightarrow> POST I (Json b) = POST I (Json b'))
   \<and> (join xs = Inl err \<and> body_symbols b = Inr (Some (JArr xs))
      \<longrightarrow> POST I (Json b) =
            \<lparr>response = \<lparr>status = 500, body = ErrorBody (error_text err)\<rparr>, calls = []\<rparr>)
   \<and> join (map JStr strings) = Inr (join_comma strings)
   \<and> built (calls (POST I (symbols_request (JArr [JStr ''tcs,infy'', JStr ''sbin''])))) =
       [''TCS'', ''INFY'', ''SBIN'']"
proof (intro conjI impI)
  assume a: "join xs = Inr joined \<and> body_symbols b = Inr (Some (JArr xs))
      \<and> body_symbols b' = Inr (Some (JStr joined))"
  then have "raw_symbols b = Inr joined" by (simp add: raw_symbols_array)
  moreover from a have "raw_symbols b' = Inr joined" by (simp add: raw_symbols_def)
  ultimately have "raw_symbols (parsed_body (Json b)) = raw_symbols (parsed_body (Json b'))"
    by (simp add: parsed_body_def)
  then show "POST I (Json b) = POST I (Json b')" by (rule POST_depends_on_raw)
next
  assume "join xs = Inl err \<and> body_symbols b = Inr (Some (JArr xs))"
  then have "raw_symbols (parsed_body (Json b)) = Inl err"
    by (simp add: raw_symbols_array parsed_body_def)
  then show "POST I (Json b) =
            \<lparr>response = \<lparr>status = 500, body = ErrorBody (error_text err)\<rparr>, calls = []\<rparr>"
    by (simp add: POST_def POST_try_def)
next
  show "join (map JStr strings) = Inr (join_comma strings)" by (rule join_strings)
next
  have "raw_symbols (parsed_body (symbols_request (JArr [JStr ''tcs,infy'', JStr ''sbin''])))
      = Inr ''tcs,infy,sbin''"
    by (simp add: raw_symbols_def parsed_body_def symbols_request_def join_def)
  then have "built (calls (POST I (symbols_request (JArr [JStr ''tcs,infy'', JStr ''sbin'']))))
      = unique_of ''tcs,infy,sbin''"
    by (rule built_POST)
  moreover have "unique_of ''tcs,infy,sbin'' = [''TCS'', ''INFY'', ''SBIN'']" by code_simp
  ultimately show "built (calls (POST I (symbols_request (JArr [JStr ''tcs,infy'', JStr ''sbin''])))) =
       [''TCS'', ''INFY'', ''SBIN'']"
    by (simp only:)
qed

theorem array_as_joined_string_witness:
  "join [JStr ''tcs,infy'', JStr ''sbin''] = Inr ''tcs,infy,sbin''
   \<and> body_symbols (JObj [(''symbols'', JArr [JStr ''tcs,infy'', JStr ''sbin''])])
     = Inr (Some (JArr [JStr ''tcs,infy'', JStr ''sbin'']))
   \<and> body_symbols (JObj [(''symbols'', JStr ''tcs,infy,sbin'')])
     = Inr (Some (JStr ''tcs,infy,sbin''))
   \<and> POST (linked sample_providers) (symbols_request (JArr [JStr ''tcs,infy'', JStr ''sbin'']))
     = POST (linked sample_providers) (symbols_request (JStr ''tcs,infy,sbin''))
   \<and> join [JStr ''tcs'', JObj [(''toString'', JNull)]] = Inl primitive_error
   \<and> body_symbols (JObj [(''symbols'', JArr [JStr ''tcs'', JObj [(''toString'', JNull)]])])
     = Inr (Some (JArr [JStr ''tcs'', JObj [(''toString'', JNull)]]))
   \<and> POST (linked sample_providers)
         (symbols_request (JArr [JStr ''tcs'', JObj [(''toString'', JNull)]])) =
       \<lparr>response = \<lparr>status = 500,
                     body = ErrorBody ''Cannot convert object to primitive value''\<rparr>,
        calls = []\<rparr>"
proof -
  have j: "join [JStr ''tcs,infy'', JStr ''sbin''] = Inr ''tcs,infy,sbin''"
    by (simp add: join_def)
  have s: "body_symbols (JObj [(''symbols'', JArr [JStr ''tcs,infy'', JStr ''sbin''])])
     = Inr (Some (JArr [JStr ''tcs,infy'', JStr ''sbin'']))"
    by simp
  have s': "body_symbols (JObj [(''symbols'', JStr ''tcs,infy,sbin'')])
     = Inr (Some (JStr ''tcs,infy,sbin''))"
    by simp
  have t: "join [JStr ''tcs'', JObj [(''toString'', JNull)]] = Inl primitive_error"
    by (simp add: join_def)
  have u: "body_symbols (JObj [(''symbols'', JArr [JStr ''tcs'', JObj [(''toString'', JNull)]])])
     = Inr (Some (JArr [JStr ''tcs'', JObj [(''toString'', JNull)]]))"
    by simp
  from j s s' array_as_joined_string
    [where xs = "[JStr ''tcs,infy'', JStr ''sbin'']" and joined = "''tcs,infy,sbin''"
       and b = "JObj [(''symbols'', JArr [JStr ''tcs,infy'', JStr ''sbin''])]"
       and b' = "JObj [(''symbols'', JStr ''tcs,infy,sbin'')]"
       and I = "linked sample_providers"]
  have same: "POST (linked sample_providers)
       (symbols_request (JArr [JStr ''tcs,infy'', JStr ''sbin'']))
     = POST (linked sample_providers) (symbols_request (JStr ''tcs,infy,sbin''))"
    unfolding symbols_request_def by blast
  from t u array_as_joined_string
    [where xs = "[JStr ''tcs'', JObj [(''toString'', JNull)]]" and err = primitive_error
       and b = "JObj [(''symbols'', JArr [JStr ''tcs'', JObj [(''toString'', JNull)]])]"
       and I = "linked sample_providers"]
  have "POST (linked sample_providers)
         (symbols_request (JArr [JStr ''tcs'', JObj [(''toString'', JNull)]])) =
       \<lparr>response = \<lparr>status = 500, body = ErrorBody (error_text primitive_error)\<rparr>,
        calls = []\<rparr>"
    unfolding symbols_request_def by blast
  then have thrown: "POST (linked sample_providers)
         (symbols_request (JArr [JStr ''tcs'', JObj [(''toString'', JNull)]])) =
       \<lparr>response = \<lparr>status = 500,
                     body = ErrorBody ''Cannot convert object to primitive value''\<rparr>,
        calls = []\<rparr>"
    by (simp add: error_text_def primitive_error_def)
  from j s s' same t u thrown show ?thesis by (intro conjI)
qed

text \<open>
  Claim C9, as stated, fails: for the array \<open>[{"toString": 1}]\<close> the join throws, so there
  is no joined string, and the handler answers 500; the request with the string
  \<open>"[object Object]"\<close>, which is what an object without such a member joins to, is
  answered 200.
\<close>

theorem array_as_joined_string_counterexample:
  "join [JObj [(''toString'', JNum ''1'')]] = Inl primitive_error
   \<and> response (POST (linked sample_providers)
         (symbols_request (JArr [JObj [(''toString'', JNum ''1'')]]))) =
       \<lparr>status = 500, body = ErrorBody ''Cannot convert object to primitive value''\<rparr>
   \<and> join [JObj []] = Inr ''[object Object]''
   \<and> status (response (POST (linked sample_providers)
         (symbols_request (JStr ''[object Object]'')))) = 200"
  by code_simp

lemma comma_not_white: "\<not> isWhiteSpace CHR '',''"
  by (simp add: isWhiteSpace_def)

lemma symbols_of_Nil:
  assumes "(\<forall>c\<in>set raw. isWhiteSpace c) \<or> (\<forall>t\<in>set (split CHR '','' raw). trim t = [])"
  shows "symbols_of raw = []"
proof -
  have all: "\<forall>t\<in>set (split CHR '','' raw). trim t = []"
    using assms
  proof
    assume w: "\<forall>c\<in>set raw. isWhiteSpace c"
    then have "CHR '','' \<notin> set raw" using comma_not_white by blast
    then have "split CHR '','' raw = [raw]" by (rule split_no_sep)
    moreover have "trim raw = []" using w by (simp add: trim_Nil_iff)
    ultimately show ?thesis by simp
  qed
  have "filter (\<lambda>s. s \<noteq> []) (map (\<lambda>s. toUpperCase (trim s)) (split CHR '','' raw)) = []"
    using all by (simp add: filter_empty_conv toUpperCase_Nil_iff)
  then show ?thesis by (simp add: symbols_of_def)
qed

text \<open>
  Claim C5.  When the raw symbols text is empty or white space only, or every one of its
  comma-separated tokens is empty after trimming, the handler answers 400 with
  \<open>"No symbols provided."\<close> and has called neither \<open>buildStockInsight\<close> nor
  \<open>fetchBulkDealsForSymbol\<close>.
\<close>

theorem no_symbols:
  assumes "raw_symbols (parsed_body req) = Inr raw"
    and "(\<forall>c\<in>set raw. isWhiteSpace c) \<or> (\<forall>t\<in>set (split CHR '','' raw). trim t = [])"
  shows "POST I req =
           \<lparr>response = \<lparr>status = 400, body = ErrorBody ''No symbols provided.''\<rparr>, calls = []\<rparr>"
proof -
  have "symbols_of raw = []" using assms(2) by (rule symbols_of_Nil)
  then show ?thesis using assms(1) by (simp add: POST_def POST_try_def)
qed

theorem no_symbols_witness:
  "raw_symbols (parsed_body (symbols_request (JStr '' , ,,  ''))) = Inr '' , ,,  ''
   \<and> list_all (\<lambda>t. trim t = []) (split CHR '','' '' , ,,  '')
   \<and> POST (linked sample_providers) (symbols_request (JStr '' , ,,  '')) =
       \<lparr>response = \<lparr>status = 400, body = ErrorBody ''No symbols provided.''\<rparr>, calls = []\<rparr>"
proof -
  have r: "raw_symbols (parsed_body (symbols_request (JStr '' , ,,  ''))) = Inr '' , ,,  ''"
    by (simp add: raw_symbols_def parsed_body_def symbols_request_def)
  have t: "list_all (\<lambda>t. trim t = []) (split CHR '','' '' , ,,  '')"
    by code_simp
  then have "(\<forall>c\<in>set '' , ,,  ''. isWhiteSpace c) \<or> (\<forall>t\<in>set (split CHR '','' '' , ,,  ''). trim t = [])"
    unfolding list_all_iff by (rule disjI2)
  with r have "POST (linked sample_providers) (symbols_request (JStr '' , ,,  '')) =
       \<lparr>response = \<lparr>status = 400, body = ErrorBody ''No symbols provided.''\<rparr>, calls = []\<rparr>"
    by (rule no_symbols)
  with r t show ?thesis by simp
qed

lemma first_rejection_resolved:
  "first_rejection (map (\<lambda>x. (g x, Inr (f x))) xs) = None"
  by (induction xs) simp_all

lemma fulfilled_resolved: "fulfilled (map (\<lambda>x. (g x, Inr (f x))) xs) = map f xs"
  by (induction xs) simp_all

lemma promise_all_resolved:
  "promise_all (map (\<lambda>x. (g x, Inr (f x))) xs) = Inr (map f xs)"
  by (simp add: promise_all_def first_rejection_resolved fulfilled_resolved)

lemma first_rejection_member:
  "first_rejection ps = Some (t, e) \<Longrightarrow> (t, Inl e) \<in> set ps"
  by (induction ps arbitrary: t e rule: first_rejection.induct)
    (auto split: option.splits if_splits)

lemma first_rejection_exists:
  "(t, Inl e) \<in> set ps \<Longrightarrow> first_rejection ps \<noteq> None"
  by (induction ps rule: first_rejection.induct) (auto split: option.splits)

lemma first_rejection_least:
  "first_rejection ps = Some (t, e) \<Longrightarrow> (t', Inl e') \<in> set ps \<Longrightarrow> t \<le> t'"
proof (induction ps arbitrary: t e rule: first_rejection.induct)
  case 1
  then show ?case by simp
next
  case (2 u x ps)
  then show ?case by simp
next
  case (3 u d ps)
  show ?case
  proof (cases "first_rejection ps")
    case None
    with "3.prems"(1) have "t = u" by simp
    moreover have "(t', Inl e') \<notin> set ps"
      using None first_rejection_exists [of t' e' ps] by blast
    ultimately show ?thesis using "3.prems"(2) by simp
  next
    case (Some r)
    obtain t1 e1 where r: "r = (t1, e1)" by (cases r)
    have ih: "(t', Inl e') \<in> set ps \<Longrightarrow> t1 \<le> t'"
      using "3.IH" [of t1 e1] Some r by simp
    show ?thesis
    proof (cases "t1 < u")
      case True
      with "3.prems"(1) Some r have "t = t1" by simp
      with True ih "3.prems"(2) show ?thesis by auto
    next
      case False
      with "3.prems"(1) Some r have "t = u" by simp
      with False ih "3.prems"(2) show ?thesis by auto
    qed
  qed
qed

lemma insight_task_linked: "insight_task (linked P) = (\<lambda>ticker. Inr (merged P ticker))"
  by (rule ext) (simp add: insight_task_def linked_def merged_def)

lemma POST_linked:
  assumes "raw_symbols (parsed_body req) = Inr raw" and "symbols_of raw \<noteq> []"
  shows "response (POST (linked P) req) =
           \<lparr>status = 200, body = Results (map (merged P) (unique_of raw))\<rparr>"
  using assms
  by (simp add: POST_def POST_try_def Let_def insight_task_linked promise_all_resolved
      unique_of_def)

lemma POST_linked_results:
  assumes "response (POST (linked P) req) = \<lparr>status = st, body = Results results\<rparr>"
  shows "\<exists>raw. results = map (merged P) (unique_of raw)"
proof (cases "raw_symbols (parsed_body req)")
  case (Inl e)
  with assms show ?thesis by (simp add: POST_def POST_try_def)
next
  case (Inr raw)
  show ?thesis
  proof (cases "symbols_of raw = []")
    case True
    with Inr assms show ?thesis by (simp add: POST_def POST_try_def)
  next
    case False
    with Inr have "response (POST (linked P) req) =
           \<lparr>status = 200, body = Results (map (merged P) (unique_of raw))\<rparr>"
      by (rule POST_linked)
    with assms show ?thesis by auto
  qed
qed

lemma symbol_merged: "symbol (merged P ticker) = ticker"
  by (simp add: merged_def buildStockInsight_def Let_def split: sum.splits)

lemma latestNews_merged: "latestNews (merged P ticker) = fetchNewsForSymbol P ticker"
  by (simp add: merged_def buildStockInsight_def Let_def split: sum.splits)

lemma bulkDeals_merged: "bulkDeals (merged P ticker) = fetchBulkDealsForSymbol ticker"
  by (simp add: merged_def)

lemma merged_failure:
  "fetchPriceAndRange P ticker = Inl failure \<Longrightarrow>
   error (merged P ticker) = Some failure \<and> currentPrice (merged P ticker) = None
   \<and> high52 (merged P ticker) = None \<and> low52 (merged P ticker) = None
   \<and> insight_pctFromHigh (merged P ticker) = None \<and> insight_pctFromLow (merged P ticker) = None"
  by (simp add: merged_def buildStockInsight_def Let_def)

lemma merged_success:
  "fetchPriceAndRange P ticker = Inr r \<Longrightarrow>
   error (merged P ticker) = None
   \<and> currentPrice (merged P ticker) = Some (range_currentPrice r)
   \<and> high52 (merged P ticker) = Some (range_high52 r)
   \<and> low52 (merged P ticker) = Some (range_low52 r)
   \<and> insight_pctFromHigh (merged P ticker)
       = Some (pctFromHigh (range_currentPrice r) (range_high52 r))
   \<and> insight_pctFromLow (merged P ticker)
       = Some (pctFromLow (range_currentPrice r) (range_low52 r))"
  by (simp add: merged_def buildStockInsight_def Let_def)

lemma map_symbol_merged: "map symbol (map (merged P) xs) = xs"
  by (induction xs) (simp_all add: symbol_merged)

text \<open>
  Claim C6.  With the aggregator of the specification linked in, a request whose symbols
  normalise to a non-empty list is answered 200 with one insight per unique symbol, in the
  order of first occurrence, each carrying the symbol as it was normalised (suffix kept).
  The body \<open>{"symbols": "RELIANCE.NS, TCS.NS"}\<close> gives two entries, \<open>RELIANCE.NS\<close> then
  \<open>TCS.NS\<close>.
\<close>

theorem one_insight_per_symbol:
  "(raw_symbols (parsed_body req) = Inr raw \<and> symbols_of raw \<noteq> [] \<longrightarrow>
      (\<exists>results.
          response (POST (linked P) req) = \<lparr>status = 200, body = Results results\<rparr>
        \<and> map symbol results = unique_of raw
        \<and> unique_of raw = first_occurrences (symbols_of raw)
        \<and> distinct (map symbol results)))
   \<and> (\<exists>results.
          response (POST (linked P) (symbols_request (JStr ''RELIANCE.NS, TCS.NS'')))
            = \<lparr>status = 200, body = Results results\<rparr>
        \<and> map symbol results = [''RELIANCE.NS'', ''TCS.NS''])"
proof -
  have general: "\<exists>results.
          response (POST (linked P) req) = \<lparr>status = 200, body = Results results\<rparr>
        \<and> map symbol results = unique_of raw
        \<and> unique_of raw = first_occurrences (symbols_of raw)
        \<and> distinct (map symbol results)"
    if "raw_symbols (parsed_body req) = Inr raw \<and> symbols_of raw \<noteq> []"
  proof -
    from that have a: "raw_symbols (parsed_body req) = Inr raw" and b: "symbols_of raw \<noteq> []"
      by simp_all
    from a b have "response (POST (linked P) req) =
           \<lparr>status = 200, body = Results (map (merged P) (unique_of raw))\<rparr>"
      by (rule POST_linked)
    moreover have "map symbol (map (merged P) (unique_of raw)) = unique_of raw"
      by (rule map_symbol_merged)
    moreover have "unique_of raw = first_occurrences (symbols_of raw)"
      by (simp add: unique_of_def array_from_set_first)
    moreover have "distinct (map symbol (map (merged P) (unique_of raw)))"
      by (simp only: map_symbol_merged distinct_unique_of)
    ultimately show ?thesis by (intro exI [of _ "map (merged P) (unique_of raw)"] conjI)
  qed
  have r: "raw_symbols (parsed_body (symbols_request (JStr ''RELIANCE.NS, TCS.NS'')))
        = Inr ''RELIANCE.NS, TCS.NS''"
    by (simp add: raw_symbols_def parsed_body_def symbols_request_def)
  have s: "symbols_of ''RELIANCE.NS, TCS.NS'' = [''RELIANCE.NS'', ''TCS.NS'']" by code_simp
  have u: "unique_of ''RELIANCE.NS, TCS.NS'' = [''RELIANCE.NS'', ''TCS.NS'']" by code_simp
  have "symbols_of ''RELIANCE.NS, TCS.NS'' \<noteq> []" by (simp only: s) simp
  with r have "response (POST (linked P) (symbols_request (JStr ''RELIANCE.NS, TCS.NS''))) =
      \<lparr>status = 200, body = Results (map (merged P) (unique_of ''RELIANCE.NS, TCS.NS''))\<rparr>"
    by (rule POST_linked)
  moreover have "map symbol (map (merged P) (unique_of ''RELIANCE.NS, TCS.NS''))
      = [''RELIANCE.NS'', ''TCS.NS'']"
    by (simp only: map_symbol_merged u)
  ultimately have example: "\<exists>results.
          response (POST (linked P) (symbols_request (JStr ''RELIANCE.NS, TCS.NS'')))
            = \<lparr>status = 200, body = Results results\<rparr>
        \<and> map symbol results = [''RELIANCE.NS'', ''TCS.NS'']"
    by (intro exI [of _ "map (merged P) (unique_of ''RELIANCE.NS, TCS.NS'')"] conjI)
  show ?thesis
  proof (intro conjI impI)
    assume "raw_symbols (parsed_body req) = Inr raw \<and> symbols_of raw \<noteq> []"
    then show "\<exists>results.
          response (POST (linked P) req) = \<lparr>status = 200, body = Results results\<rparr>
        \<and> map symbol results = unique_of raw
        \<and> unique_of raw = first_occurrences (symbols_of raw)
        \<and> distinct (map symbol results)"
      by (rule general)
  next
    show "\<exists>results.
          response (POST (linked P) (symbols_request (JStr ''RELIANCE.NS, TCS.NS'')))
            = \<lparr>status = 200, body = Results results\<rparr>
        \<and> map symbol results = [''RELIANCE.NS'', ''TCS.NS'']"
      by (rule example)
  qed
qed

theorem one_insight_per_symbol_witness:
  "raw_symbols (parsed_body (symbols_request (JStr ''tcs, TCS, Infy ''))) = Inr ''tcs, TCS, Infy ''
   \<and> symbols_of ''tcs, TCS, Infy '' \<noteq> []
   \<and> (\<exists>results.
         response (POST (linked sample_providers) (symbols_request (JStr ''tcs, TCS, Infy '')))
           = \<lparr>status = 200, body = Results results\<rparr>
       \<and> map symbol results = [''TCS'', ''INFY''])"
proof -
  have r: "raw_symbols (parsed_body (symbols_request (JStr ''tcs, TCS, Infy '')))
      = Inr ''tcs, TCS, Infy ''"
    by (simp add: raw_symbols_def parsed_body_def symbols_request_def)
  have s: "symbols_of ''tcs, TCS, Infy '' = [''TCS'', ''TCS'', ''INFY'']" by code_simp
  have n: "symbols_of ''tcs, TCS, Infy '' \<noteq> []" by (simp only: s) simp
  have u: "unique_of ''tcs, TCS, Infy '' = [''TCS'', ''INFY'']" by code_simp
  from r n one_insight_per_symbol
    [of "symbols_request (JStr ''tcs, TCS, Infy '')" "''tcs, TCS, Infy ''" sample_providers]
  obtain results where
    a: "response (POST (linked sample_providers) (symbols_request (JStr ''tcs, TCS, Infy '')))
           = \<lparr>status = 200, body = Results results\<rparr>"
    and b: "map symbol results = unique_of ''tcs, TCS, Infy ''"
    by auto
  from b have "map symbol results = [''TCS'', ''INFY'']" by (simp only: u)
  with a have "\<exists>results.
         response (POST (linked sample_providers) (symbols_request (JStr ''tcs, TCS, Infy '')))
           = \<lparr>status = 200, body = Results results\<rparr>
       \<and> map symbol results = [''TCS'', ''INFY'']"
    by (intro exI [of _ results] conjI)
  with r n show ?thesis by (intro conjI)
qed

text \<open>
  Claim C1.  With the aggregator of the specification linked in: when the price fetch fails
  for a symbol X of the batch and succeeds for a symbol Y, the answer is still 200 with one
  insight per symbol.  The insight of X has \<open>error\<close> set to the failure message, every numeric
  field null, and the news and bulk deals of their own fetches; the insight of Y has no
  error and every numeric field set.
\<close>

theorem partial_failure:
  assumes "raw_symbols (parsed_body req) = Inr raw"
    and "X \<in> set (unique_of raw)" and "Y \<in> set (unique_of raw)"
    and "fetchPriceAndRange P X = Inl failure" and "fetchPriceAndRange P Y = Inr r"
  shows "\<exists>results x y.
           response (POST (linked P) req) = \<lparr>status = 200, body = Results results\<rparr>
         \<and> map symbol results = unique_of raw
         \<and> x \<in> set results \<and> symbol x = X
         \<and> error x = Some failure
         \<and> currentPrice x = None \<and> high52 x = None \<and> low52 x = None
         \<and> insight_pctFromHigh x = None \<and> insight_pctFromLow x = None
         \<and> latestNews x = fetchNewsForSymbol P X
         \<and> bulkDeals x = fetchBulkDealsForSymbol X
         \<and> y \<in> set results \<and> symbol y = Y
         \<and> error y = None
         \<and> currentPrice y = Some (range_currentPrice r)
         \<and> high52 y = Some (range_high52 r)
         \<and> low52 y = Some (range_low52 r)
         \<and> insight_pctFromHigh y = Some (pctFromHigh (range_currentPrice r) (range_high52 r))
         \<and> insight_pctFromLow y = Some (pctFromLow (range_currentPrice r) (range_low52 r))
         \<and> latestNews y = fetchNewsForSymbol P Y
         \<and> bulkDeals y = fetchBulkDealsForSymbol Y"
proof -
  from assms(2) have "symbols_of raw \<noteq> []" by (auto simp add: set_unique_of)
  with assms(1) have "response (POST (linked P) req) =
           \<lparr>status = 200, body = Results (map (merged P) (unique_of raw))\<rparr>"
    by (rule POST_linked)
  moreover have "map symbol (map (merged P) (unique_of raw)) = unique_of raw"
    by (rule map_symbol_merged)
  moreover have "merged P X \<in> set (map (merged P) (unique_of raw))"
    using assms(2) by simp
  moreover have "merged P Y \<in> set (map (merged P) (unique_of raw))"
    using assms(3) by simp
  moreover note symbol_merged [of P X] symbol_merged [of P Y]
    merged_failure [OF assms(4)] merged_success [OF assms(5)]
    latestNews_merged [of P X] latestNews_merged [of P Y]
    bulkDeals_merged [of P X] bulkDeals_merged [of P Y]
  ultimately show ?thesis
    by (intro exI [of _ "map (merged P) (unique_of raw)"] exI [of _ "merged P X"]
        exI [of _ "merged P Y"]) simp
qed

theorem partial_failure_witness:
  "raw_symbols (parsed_body (symbols_request (JStr ''bad, tcs''))) = Inr ''bad, tcs''
   \<and> ''BAD'' \<in> set (unique_of ''bad, tcs'') \<and> ''TCS'' \<in> set (unique_of ''bad, tcs'')
   \<and> fetchPriceAndRange sample_providers ''BAD'' = Inl ''Symbol not found''
   \<and> fetchPriceAndRange sample_providers ''TCS'' = Inr sample_range
   \<and> (\<exists>results x y.
         response (POST (linked sample_providers) (symbols_request (JStr ''bad, tcs'')))
           = \<lparr>status = 200, body = Results results\<rparr>
       \<and> map symbol results = [''BAD'', ''TCS'']
       \<and> x \<in> set results \<and> symbol x = ''BAD'' \<and> error x = Some ''Symbol not found''
       \<and> currentPrice x = None \<and> insight_pctFromHigh x = None
       \<and> map title (latestNews x) = [''B'', ''D'', ''C'']
       \<and> y \<in> set results \<and> symbol y = ''TCS'' \<and> error y = None
       \<and> currentPrice y = Some (Fin 1200) \<and> insight_pctFromHigh y = Some (Fin (- 20)))"
proof -
  have r: "raw_symbols (parsed_body (symbols_request (JStr ''bad, tcs''))) = Inr ''bad, tcs''"
    by (rule raw_symbols_request_string)
  have u: "unique_of ''bad, tcs'' = [''BAD'', ''TCS'']" by code_simp
  have x: "''BAD'' \<in> set (unique_of ''bad, tcs'')" by (simp only: u) simp
  have y: "''TCS'' \<in> set (unique_of ''bad, tcs'')" by (simp only: u) simp
  have fx: "fetchPriceAndRange sample_providers ''BAD'' = Inl ''Symbol not found''"
    by (simp add: sample_providers_def)
  have fy: "fetchPriceAndRange sample_providers ''TCS'' = Inr sample_range"
    by (simp add: sample_providers_def)
  have news: "map title (fetchNewsForSymbol sample_providers ''BAD'') = [''B'', ''D'', ''C'']"
    by (simp add: fetchNewsForSymbol_def sample_providers_def sample_feed_def headline_def)
  have pct: "pctFromHigh (range_currentPrice sample_range) (range_high52 sample_range) = Fin (- 20)"
    by (simp add: sample_range_def sample_pctFromHigh)
  have cp: "Some (range_currentPrice sample_range) = Some (Fin 1200)"
    by (simp add: sample_range_def)
  from partial_failure [OF r x y fx fy]
  obtain results a b where
    "response (POST (linked sample_providers) (symbols_request (JStr ''bad, tcs'')))
           = \<lparr>status = 200, body = Results results\<rparr>"
    "map symbol results = unique_of ''bad, tcs''"
    "a \<in> set results" "symbol a = ''BAD''" "error a = Some ''Symbol not found''"
    "currentPrice a = None" "insight_pctFromHigh a = None"
    "latestNews a = fetchNewsForSymbol sample_providers ''BAD''"
    "b \<in> set results" "symbol b = ''TCS''" "error b = None"
    "currentPrice b = Some (range_currentPrice sample_range)"
    "insight_pctFromHigh b
       = Some (pctFromHigh (range_currentPrice sample_range) (range_high52 sample_range))"
    by (elim exE conjE)
  then have "response (POST (linked sample_providers) (symbols_request (JStr ''bad, tcs'')))
           = \<lparr>status = 200, body = Results results\<rparr>
       \<and> map symbol results = [''BAD'', ''TCS'']
       \<and> a \<in> set results \<and> symbol a = ''BAD'' \<and> error a = Some ''Symbol not found''
       \<and> currentPrice a = None \<and> insight_pctFromHigh a = None
       \<and> map title (latestNews a) = [''B'', ''D'', ''C'']
       \<and> b \<in> set results \<and> symbol b = ''TCS'' \<and> error b = None
       \<and> currentPrice b = Some (Fin 1200) \<and> insight_pctFromHigh b = Some (Fin (- 20))"
    by (simp only: u news pct cp simp_thms)
  then have "\<exists>results x y.
         response (POST (linked sample_providers) (symbols_request (JStr ''bad, tcs'')))
           = \<lparr>status = 200, body = Results results\<rparr>
       \<and> map symbol results = [''BAD'', ''TCS'']
       \<and> x \<in> set results \<and> symbol x = ''BAD'' \<and> error x = Some ''Symbol not found''
       \<and> currentPrice x = None \<and> insight_pctFromHigh x = None
       \<and> map title (latestNews x) = [''B'', ''D'', ''C'']
       \<and> y \<in> set results \<and> symbol y = ''TCS'' \<and> error y = None
       \<and> currentPrice y = Some (Fin 1200) \<and> insight_pctFromHigh y = Some (Fin (- 20))"
    by (intro exI [of _ results] exI [of _ a] exI [of _ b])
  with r x y fx fy show ?thesis by (intro conjI)
qed

lemma fetchNews_length: "length (fetchNewsForSymbol P ticker) \<le> 3"
  by (simp add: fetchNewsForSymbol_def split: sum.splits)

lemma sorted_desc_sort_key:
  "sorted_wrt (\<lambda>a b. publishedAt b \<le> publishedAt a) (sort_key (\<lambda>n. - publishedAt n) xs)"
proof -
  have "sorted (map (\<lambda>n. - publishedAt n) (sort_key (\<lambda>n. - publishedAt n) xs))"
    by (rule sorted_sort_key)
  then show ?thesis by (simp add: sorted_map)
qed

lemma fetchNews_sorted:
  "sorted_wrt (\<lambda>a b. publishedAt b \<le> publishedAt a) (fetchNewsForSymbol P ticker)"
  by (simp add: fetchNewsForSymbol_def sorted_desc_sort_key sorted_wrt_take split: sum.splits)

text \<open>
  Claim C8.  With the aggregator of the specification linked in, every insight of a response
  has at most three news items, sorted by publish time, most recent first: they are what
  \<open>fetchNewsForSymbol\<close> gave for the symbol, three of them whenever the feed has three or
  more.
\<close>

theorem latest_news_bounded:
  assumes "response (POST (linked P) req) = \<lparr>status = st, body = Results results\<rparr>"
    and "i \<in> set results"
  shows "length (latestNews i) \<le> 3
       \<and> sorted_wrt (\<lambda>a b. publishedAt b \<le> publishedAt a) (latestNews i)
       \<and> latestNews i = fetchNewsForSymbol P (symbol i)
       \<and> length (latestNews i) =
           (case newsFeed P (symbol i) of
              Inl failure \<Rightarrow> 0
            | Inr entries \<Rightarrow> min 3 (length entries))"
proof -
  from assms(1) obtain raw where "results = map (merged P) (unique_of raw)"
    using POST_linked_results by blast
  with assms(2) obtain ticker where i: "i = merged P ticker" by auto
  then have "symbol i = ticker" by (simp add: symbol_merged)
  with i have n: "latestNews i = fetchNewsForSymbol P (symbol i)"
    by (simp add: latestNews_merged)
  have "length (fetchNewsForSymbol P (symbol i)) =
           (case newsFeed P (symbol i) of
              Inl failure \<Rightarrow> 0
            | Inr entries \<Rightarrow> min 3 (length entries))"
    by (simp add: fetchNewsForSymbol_def min.commute split: sum.splits)
  then have counted: "length (latestNews i) =
           (case newsFeed P (symbol i) of
              Inl failure \<Rightarrow> 0
            | Inr entries \<Rightarrow> min 3 (length entries))"
    by (simp only: n)
  have bounded: "length (latestNews i) \<le> 3"
    using fetchNews_length [of P "symbol i"] by (simp only: n)
  have ordered: "sorted_wrt (\<lambda>a b. publishedAt b \<le> publishedAt a) (latestNews i)"
    using fetchNews_sorted [of P "symbol i"] by (simp only: n)
  from bounded ordered n counted show ?thesis by (intro conjI)
qed

theorem latest_news_bounded_witness:
  "response (POST (linked sample_providers) (symbols_request (JStr ''tcs'')))
     = \<lparr>status = 200, body = Results [merged sample_providers ''TCS'']\<rparr>
   \<and> merged sample_providers ''TCS'' \<in> set [merged sample_providers ''TCS'']
   \<and> map publishedAt (latestNews (merged sample_providers ''TCS'')) = [40, 30, 20]
   \<and> length (latestNews (merged sample_providers ''TCS'')) \<le> 3
   \<and> sorted_wrt (\<lambda>a b. publishedAt b \<le> publishedAt a)
        (latestNews (merged sample_providers ''TCS''))"
proof -
  have s: "symbols_of ''tcs'' = [''TCS'']" by code_simp
  have u: "unique_of ''tcs'' = [''TCS'']" by code_simp
  have "symbols_of ''tcs'' \<noteq> []" by (simp only: s) simp
  with raw_symbols_request_string
  have "response (POST (linked sample_providers) (symbols_request (JStr ''tcs''))) =
          \<lparr>status = 200, body = Results (map (merged sample_providers) (unique_of ''tcs''))\<rparr>"
    by (rule POST_linked)
  then have a: "response (POST (linked sample_providers) (symbols_request (JStr ''tcs'')))
     = \<lparr>status = 200, body = Results [merged sample_providers ''TCS'']\<rparr>"
    by (simp only: u list.map)
  have b: "merged sample_providers ''TCS'' \<in> set [merged sample_providers ''TCS'']" by simp
  have c: "map publishedAt (latestNews (merged sample_providers ''TCS'')) = [40, 30, 20]"
    by (simp add: latestNews_merged fetchNewsForSymbol_def sample_providers_def sample_feed_def
        headline_def)
  note bound = latest_news_bounded [OF a b]
  from bound have d: "length (latestNews (merged sample_providers ''TCS'')) \<le> 3"
    by (rule conjunct1)
  from bound have e: "sorted_wrt (\<lambda>a b. publishedAt b \<le> publishedAt a)
        (latestNews (merged sample_providers ''TCS''))"
    by (rule conjunct1 [OF conjunct2])
  from a b c d e show ?thesis by (intro conjI)
qed

lemma POST_try_rejected:
  assumes "raw_symbols (parsed_body req) = Inr raw"
    and "ticker \<in> set (unique_of raw)"
    and "insight_task I ticker = Inl err"
  shows "\<exists>t e. t \<in> set (unique_of raw) \<and> insight_task I t = Inl e
           \<and> snd (POST_try I req) = Inl e
           \<and> (\<forall>s\<in>set (unique_of raw).
                 (\<exists>e'. insight_task I s = Inl e') \<longrightarrow> task_settles I t \<le> task_settles I s)"
proof -
  define ps where
    "ps = map (\<lambda>ticker. (task_settles I ticker, insight_task I ticker)) (unique_of raw)"
  from assms(2) have ne: "symbols_of raw \<noteq> []" by (auto simp add: set_unique_of)
  from assms(2,3) have "(task_settles I ticker, Inl err) \<in> set ps"
    by (auto simp add: ps_def)
  then have "first_rejection ps \<noteq> None" by (rule first_rejection_exists)
  then obtain u e where first: "first_rejection ps = Some (u, e)" by auto
  then have "(u, Inl e) \<in> set ps" by (rule first_rejection_member)
  then obtain t where t: "t \<in> set (unique_of raw)" and u: "u = task_settles I t"
    and e: "insight_task I t = Inl e"
    by (auto simp add: ps_def)
  have thrown: "snd (POST_try I req) = Inl e"
    using assms(1) ne first
    by (simp add: POST_try_def Let_def promise_all_def ps_def unique_of_def)
  have least: "\<forall>s\<in>set (unique_of raw).
                 (\<exists>e'. insight_task I s = Inl e') \<longrightarrow> task_settles I t \<le> task_settles I s"
  proof (intro ballI impI)
    fix s assume s: "s \<in> set (unique_of raw)" and "\<exists>e'. insight_task I s = Inl e'"
    then obtain e' where "insight_task I s = Inl e'" by blast
    with s have "(task_settles I s, Inl e') \<in> set ps" by (auto simp add: ps_def)
    with first have "u \<le> task_settles I s" by (rule first_rejection_least)
    then show "task_settles I t \<le> task_settles I s" by (simp only: u)
  qed
  from t e thrown least show ?thesis by blast
qed

text \<open>
  Claim C2, as the handler has it.  A body that is not valid JSON is read as the empty object
  and answered 400 with \<open>"No symbols provided."\<close>, without any call.  A value thrown inside
  the handler is answered 500 with the thrown value's own message when it has one, and with
  the fixed text otherwise.  Thrown are: what reading the symbols throws (the \<open>TypeError\<close>
  of a \<open>null\<close> body, or of a join that cannot convert an element), and, when the task of
  some symbol rejects, the rejection of the task that settles first.
\<close>

theorem handler_errors:
  "POST I InvalidJson =
     \<lparr>response = \<lparr>status = 400, body = ErrorBody ''No symbols provided.''\<rparr>, calls = []\<rparr>
   \<and> (snd (POST_try I req) = Inl err \<longrightarrow>
        response (POST I req) =
          \<lparr>status = 500,
           body = ErrorBody (case message err of
                               Some m \<Rightarrow> m
                             | None \<Rightarrow> ''Unexpected server error while fetching stock insights.'')\<rparr>)
   \<and> (raw_symbols (parsed_body req) = Inl err \<longrightarrow> snd (POST_try I req) = Inl err)
   \<and> (raw_symbols (parsed_body req) = Inr raw \<and> ticker \<in> set (unique_of raw)
        \<and> insight_task I ticker = Inl err \<longrightarrow>
        (\<exists>t e. t \<in> set (unique_of raw) \<and> insight_task I t = Inl e
           \<and> snd (POST_try I req) = Inl e
           \<and> (\<forall>s\<in>set (unique_of raw).
                 (\<exists>e'. insight_task I s = Inl e') \<longrightarrow>
                 task_settles I t \<le> task_settles I s)))"
proof (intro conjI)
  have "symbols_of [] = []" by (simp add: symbols_of_def split_def trim_def toUpperCase_def)
  then show "POST I InvalidJson =
     \<lparr>response = \<lparr>status = 400, body = ErrorBody ''No symbols provided.''\<rparr>, calls = []\<rparr>"
    by (simp add: POST_def POST_try_def parsed_body_def raw_symbols_def)
next
  show "snd (POST_try I req) = Inl err \<longrightarrow>
        response (POST I req) =
          \<lparr>status = 500,
           body = ErrorBody (case message err of
                               Some m \<Rightarrow> m
                             | None \<Rightarrow> ''Unexpected server error while fetching stock insights.'')\<rparr>"
    by (cases "POST_try I req") (simp add: POST_def error_text_def)
next
  show "raw_symbols (parsed_body req) = Inl err \<longrightarrow> snd (POST_try I req) = Inl err"
    by (simp add: POST_try_def)
next
  show "raw_symbols (parsed_body req) = Inr raw \<and> ticker \<in> set (unique_of raw)
        \<and> insight_task I ticker = Inl err \<longrightarrow>
        (\<exists>t e. t \<in> set (unique_of raw) \<and> insight_task I t = Inl e
           \<and> snd (POST_try I req) = Inl e
           \<and> (\<forall>s\<in>set (unique_of raw).
                 (\<exists>e'. insight_task I s = Inl e') \<longrightarrow>
                 task_settles I t \<le> task_settles I s))"
  proof
    assume a: "raw_symbols (parsed_body req) = Inr raw \<and> ticker \<in> set (unique_of raw)
        \<and> insight_task I ticker = Inl err"
    then have "raw_symbols (parsed_body req) = Inr raw" and "ticker \<in> set (unique_of raw)"
      and "insight_task I ticker = Inl err"
      by simp_all
    then show "\<exists>t e. t \<in> set (unique_of raw) \<and> insight_task I t = Inl e
           \<and> snd (POST_try I req) = Inl e
           \<and> (\<forall>s\<in>set (unique_of raw).
                 (\<exists>e'. insight_task I s = Inl e') \<longrightarrow>
                 task_settles I t \<le> task_settles I s)"
      by (rule POST_try_rejected)
  qed
qed

theorem handler_errors_witness:
  "snd (POST_try (linked sample_providers) (Json JNull)) = Inl null_property_error
   \<and> response (POST (linked sample_providers) (Json JNull)) =
       \<lparr>status = 500, body = ErrorBody ''Cannot read properties of null (reading 'symbols')''\<rparr>
   \<and> snd (POST_try (rejecting_imports (Thrown None)) (symbols_request (JStr ''tcs'')))
       = Inl (Thrown None)
   \<and> response (POST (rejecting_imports (Thrown None)) (symbols_request (JStr ''tcs''))) =
       \<lparr>status = 500, body = ErrorBody ''Unexpected server error while fetching stock insights.''\<rparr>
   \<and> raw_symbols (parsed_body (symbols_request (JArr [JObj [(''toString'', JNull)]])))
       = Inl primitive_error
   \<and> response (POST (linked sample_providers)
         (symbols_request (JArr [JObj [(''toString'', JNull)]]))) =
       \<lparr>status = 500, body = ErrorBody ''Cannot convert object to primitive value''\<rparr>
   \<and> raw_symbols (parsed_body (symbols_request (JStr ''A,B''))) = Inr ''A,B''
   \<and> ''A'' \<in> set (unique_of ''A,B'')
   \<and> insight_task racing_imports ''A'' = Inl (Thrown (Some ''no deals''))
   \<and> insight_task racing_imports ''B'' = Inl (Thrown (Some ''no insight for B''))
   \<and> task_settles racing_imports ''B'' < task_settles racing_imports ''A''
   \<and> response (POST racing_imports (symbols_request (JStr ''A,B''))) =
       \<lparr>status = 500, body = ErrorBody ''no insight for B''\<rparr>"
proof -
  have a: "snd (POST_try (linked sample_providers) (Json JNull)) = Inl null_property_error"
    by (simp add: POST_try_def parsed_body_def raw_symbols_def)
  have b: "snd (POST_try (rejecting_imports (Thrown None)) (symbols_request (JStr ''tcs'')))
       = Inl (Thrown None)"
    by code_simp
  from a handler_errors [of "linked sample_providers" "Json JNull" null_property_error]
  have c: "response (POST (linked sample_providers) (Json JNull)) =
       \<lparr>status = 500, body = ErrorBody ''Cannot read properties of null (reading 'symbols')''\<rparr>"
    by (simp add: null_property_error_def)
  from b handler_errors
    [of "rejecting_imports (Thrown None)" "symbols_request (JStr ''tcs'')" "Thrown None"]
  have d: "response (POST (rejecting_imports (Thrown None)) (symbols_request (JStr ''tcs''))) =
       \<lparr>status = 500, body = ErrorBody ''Unexpected server error while fetching stock insights.''\<rparr>"
    by simp
  have e: "raw_symbols (parsed_body (symbols_request (JArr [JObj [(''toString'', JNull)]])))
       = Inl primitive_error"
    by (simp add: raw_symbols_def parsed_body_def symbols_request_def join_def)
  from e handler_errors
    [of "linked sample_providers" "symbols_request (JArr [JObj [(''toString'', JNull)]])"
        primitive_error]
  have f: "response (POST (linked sample_providers)
         (symbols_request (JArr [JObj [(''toString'', JNull)]]))) =
       \<lparr>status = 500, body = ErrorBody ''Cannot convert object to primitive value''\<rparr>"
    by (simp add: primitive_error_def)
  have g: "raw_symbols (parsed_body (symbols_request (JStr ''A,B''))) = Inr ''A,B''"
    by (rule raw_symbols_request_string)
  have h: "''A'' \<in> set (unique_of ''A,B'')" by code_simp
  have i: "insight_task racing_imports ''A'' = Inl (Thrown (Some ''no deals''))"
    by (simp add: insight_task_def racing_imports_def)
  have j: "insight_task racing_imports ''B'' = Inl (Thrown (Some ''no insight for B''))"
    by (simp add: insight_task_def racing_imports_def)
  have k: "task_settles racing_imports ''B'' < task_settles racing_imports ''A''"
    by (simp add: task_settles_def racing_imports_def)
  have l: "response (POST racing_imports (symbols_request (JStr ''A,B''))) =
       \<lparr>status = 500, body = ErrorBody ''no insight for B''\<rparr>"
    by code_simp
  from a b c d e f g h i j k l show ?thesis by (intro conjI)
qed

text \<open>
  Claim C2, as stated, fails: a body that is not valid JSON gets 400, not 500; and the 500
  answers carry the message of the thrown value (here the engine's \<open>TypeError\<close> text and the
  message of a rejected \<open>buildStockInsight\<close>), not a generic text.
\<close>

theorem handler_errors_counterexample:
  "response (POST (linked sample_providers) InvalidJson) =
     \<lparr>status = 400, body = ErrorBody ''No symbols provided.''\<rparr>
   \<and> status (response (POST (linked sample_providers) InvalidJson)) \<noteq> 500
   \<and> response (POST (linked sample_providers) (Json JNull)) =
     \<lparr>status = 500, body = ErrorBody ''Cannot read properties of null (reading 'symbols')''\<rparr>
   \<and> body (response (POST (linked sample_providers) (Json JNull))) \<noteq>
       ErrorBody ''Unexpected server error while fetching stock insights.''
   \<and> response (POST (rejecting_imports (Thrown (Some ''ALPHAVANTAGE_API_KEY is not set'')))
         (symbols_request (JStr ''tcs''))) =
     \<lparr>status = 500, body = ErrorBody ''ALPHAVANTAGE_API_KEY is not set''\<rparr>"
  by code_simp

end
